theory Spec2Isabelle
  imports Complex_Main
begin

section \<open>Python strings and values\<close>

text \<open>
  A Python \<open>str\<close> is modelled as a \<open>string\<close> holding its UTF-8 bytes. The whitespace that
  \<open>str.strip()\<close> and \<open>str.split()\<close> remove is the ASCII part of Python's whitespace set
  (tab, line feed, vertical tab, form feed, carriage return, the four separators
  0x1C..0x1F and the space); whitespace beyond ASCII is not modelled.
\<close>

definition NL :: string where
  "NL = [CHR 0x0A]"

definition SQ :: string where
  "SQ = [CHR 0x27]"


definition py_isspace :: "char \<Rightarrow> bool" where
  "py_isspace c = (c \<in> set [CHR 0x09, CHR 0x0A, CHR 0x0B, CHR 0x0C, CHR 0x0D,
                              CHR 0x1C, CHR 0x1D, CHR 0x1E, CHR 0x1F, CHR 0x20])"

text \<open>\<open>s.strip()\<close>\<close>

definition strip :: "string \<Rightarrow> string" where
  "strip s = rev (dropWhile py_isspace (rev (dropWhile py_isspace s)))"

text \<open>\<open>s.split()\<close>: the maximal runs of non-whitespace characters, in order.\<close>

fun split_acc :: "string \<Rightarrow> string \<Rightarrow> string list" where
  "split_acc cur [] = (if cur = [] then [] else [cur])"
| "split_acc cur (c # cs) =
     (if py_isspace c then (if cur = [] then split_acc [] cs else cur # split_acc [] cs)
      else split_acc (cur @ [c]) cs)"

definition py_split :: "string \<Rightarrow> string list" where
  "py_split s = split_acc [] s"

text \<open>\<open>s.split(sep)\<close> for a one-character separator: empty pieces are kept.\<close>

fun split_on_acc :: "char \<Rightarrow> string \<Rightarrow> string \<Rightarrow> string list" where
  "split_on_acc sep cur [] = [cur]"
| "split_on_acc sep cur (c # cs) =
     (if c = sep then cur # split_on_acc sep [] cs else split_on_acc sep (cur @ [c]) cs)"

definition split_on :: "char \<Rightarrow> string \<Rightarrow> string list" where
  "split_on sep s = split_on_acc sep [] s"

text \<open>\<open>sep.join(xs)\<close>\<close>

fun join :: "string \<Rightarrow> string list \<Rightarrow> string" where
  "join sep [] = []"
| "join sep [x] = x"
| "join sep (x # y # ys) = x @ sep @ join sep (y # ys)"

text \<open>\<open>sub in s\<close> on strings: \<open>sub\<close> occurs in \<open>s\<close> as a contiguous piece.\<close>

fun starts_with :: "string \<Rightarrow> string \<Rightarrow> bool" where
  "starts_with [] s = True"
| "starts_with (p # ps) [] = False"
| "starts_with (p # ps) (c # cs) = (p = c \<and> starts_with ps cs)"

fun py_in :: "string \<Rightarrow> string \<Rightarrow> bool" where
  "py_in sub [] = (sub = [])"
| "py_in sub (c # cs) = (starts_with sub (c # cs) \<or> py_in sub cs)"

text \<open>\<open>str(n)\<close> for an integer.\<close>

definition digit_char :: "nat \<Rightarrow> char" where
  "digit_char n = ''0123456789'' ! (n mod 10)"

function str_nat :: "nat \<Rightarrow> string" where
  "str_nat n = (if n < 10 then [digit_char n] else str_nat (n div 10) @ [digit_char n])"
  by pat_completeness auto
termination
  by (relation "measure (\<lambda>n. n)") auto

definition str_int :: "int \<Rightarrow> string" where
  "str_int i = (if i < 0 then ''-'' @ str_nat (nat (- i)) else str_nat (nat i))"

text \<open>
  A Python \<open>float\<close>: a finite double is the rational it denotes. Comparison with a NaN is
  false.
\<close>

datatype pyfloat = Finite rat | PosInf | NegInf | NaN

fun float_lt :: "pyfloat \<Rightarrow> pyfloat \<Rightarrow> bool" where
  "float_lt NaN y = False"
| "float_lt x NaN = False"
| "float_lt PosInf y = False"
| "float_lt NegInf y = (y \<noteq> NegInf)"
| "float_lt (Finite a) PosInf = True"
| "float_lt (Finite a) NegInf = False"
| "float_lt (Finite a) (Finite b) = (a < b)"

text \<open>
  The values that occur in the dictionaries of the program and in JSON documents. A
  \<open>dict\<close> keeps its keys in insertion order, so it is an association list.
\<close>

datatype pyval =
    PNone
  | PBool bool
  | PInt int
  | PFloat pyfloat
  | PStr string
  | PList "pyval list"
  | PDict "(string \<times> pyval) list"

type_synonym pydict = "(string \<times> pyval) list"

text \<open>\<open>d[k] = v\<close>: an existing key keeps its place, a new key goes to the end.\<close>

fun dict_set :: "pydict \<Rightarrow> string \<Rightarrow> pyval \<Rightarrow> pydict" where
  "dict_set [] k v = [(k, v)]"
| "dict_set ((k', v') # d) k v = (if k' = k then (k, v) # d else (k', v') # dict_set d k v)"

text \<open>\<open>k in d\<close>\<close>

definition has_key :: "pydict \<Rightarrow> string \<Rightarrow> bool" where
  "has_key d k = (map_of d k \<noteq> None)"

text \<open>Truth value of a Python object in a condition.\<close>

fun truthy :: "pyval \<Rightarrow> bool" where
  "truthy PNone = False"
| "truthy (PBool b) = b"
| "truthy (PInt i) = (i \<noteq> 0)"
| "truthy (PFloat f) = (f \<noteq> Finite 0)"
| "truthy (PStr s) = (s \<noteq> [])"
| "truthy (PList xs) = (xs \<noteq> [])"
| "truthy (PDict d) = (d \<noteq> [])"

text \<open>
  Every exception the two scripts raise is caught by \<open>except Exception as e\<close> and used
  only through \<open>str(e)\<close>, so an exception is its message.
\<close>

datatype exn = Exception string

fun str_exn :: "exn \<Rightarrow> string" where
  "str_exn (Exception m) = m"

section \<open>The environment\<close>

text \<open>
  What \<open>subprocess.run\<close> finds when it starts an external command: the process ran and
  exited with a return code, its standard output and its standard error, or it could not
  be started (\<open>OSError\<close>, for instance the executable is missing).
\<close>

datatype proc_outcome = Exited int string string | SpawnError string

text \<open>What \<open>subprocess.run(..., check=True)\<close> raises.\<close>

datatype run_error = CalledProcessError int "string list" string string | OSError string

record completed =
  returncode :: int
  stdout :: string
  stderr :: string

text \<open>
  The environment of a run. The external tool answers a command depending on all the
  commands run before it. The clock is read once per \<open>datetime.now()\<close>; the \<open>k\<close>-th
  reading is \<open>clock k\<close>. The remaining fields are the library functions of Python whose
  results the scripts only pass on: the three renderings of a \<open>datetime\<close>, \<open>float(s)\<close>
  (\<open>Inl\<close> is the message of its \<open>ValueError\<close>), \<open>str\<close> of a float, \<open>str\<close> of a
  \<open>CalledProcessError\<close>, \<open>json.dumps(v, indent=2)\<close>, \<open>json.loads\<close> (\<open>Inl\<close> is the
  message of its error) and the rendering of a value inside an f-string.
\<close>

record env =
  tool :: "string list list \<Rightarrow> string list \<Rightarrow> proc_outcome"
  clock :: "nat \<Rightarrow> nat"
  datetime_str :: "nat \<Rightarrow> string"
  strftime :: "nat \<Rightarrow> string"
  isoformat :: "nat \<Rightarrow> string"
  py_float :: "string \<Rightarrow> string + pyfloat"
  float_str :: "pyfloat \<Rightarrow> string"
  called_process_error_str :: "string list \<Rightarrow> int \<Rightarrow> string"
  json_dumps :: "pyval \<Rightarrow> string"
  json_loads :: "string \<Rightarrow> string + pyval"
  format_val :: "pyval \<Rightarrow> string"

text \<open>
  The world a script changes: the files of the working directory (a write always
  succeeds), the commands handed to \<open>subprocess.run\<close> so far, the lines printed so far,
  and the number of clock readings so far.
\<close>

record world =
  files :: "string \<rightharpoonup> string"
  calls :: "string list list"
  console :: "string list"
  ticks :: nat

definition print :: "string \<Rightarrow> world \<Rightarrow> world" where
  "print message w = w\<lparr>console := console w @ [message]\<rparr>"

text \<open>\<open>open(path, 'w')\<close> followed by writes, and \<open>open(path, 'a')\<close> followed by a write.\<close>

definition write_file :: "string \<Rightarrow> string \<Rightarrow> world \<Rightarrow> world" where
  "write_file path text w = w\<lparr>files := (files w)(path \<mapsto> text)\<rparr>"

definition append_file :: "string \<Rightarrow> string \<Rightarrow> world \<Rightarrow> world" where
  "append_file path text w =
     w\<lparr>files := (files w)(path \<mapsto> (case files w path of None \<Rightarrow> text | Some old \<Rightarrow> old @ text))\<rparr>"

text \<open>\<open>os.path.exists(path)\<close>\<close>

definition path_exists :: "world \<Rightarrow> string \<Rightarrow> bool" where
  "path_exists w path = (files w path \<noteq> None)"

text \<open>\<open>datetime.now()\<close>\<close>

definition now :: "env \<Rightarrow> world \<Rightarrow> nat \<times> world" where
  "now E w = (clock E (ticks w), w\<lparr>ticks := Suc (ticks w)\<rparr>)"

text \<open>\<open>subprocess.run(command, capture_output=True, text=True, check=True)\<close>\<close>

definition subprocess_run :: "env \<Rightarrow> string list \<Rightarrow> world \<Rightarrow> (run_error + completed) \<times> world" where
  "subprocess_run E command w =
     (let w' = w\<lparr>calls := calls w @ [command]\<rparr>
      in case tool E (calls w) command of
           SpawnError msg \<Rightarrow> (Inl (OSError msg), w')
         | Exited rc out err \<Rightarrow>
             if rc \<noteq> 0 then (Inl (CalledProcessError rc command out err), w')
             else (Inr \<lparr>returncode = rc, stdout = out, stderr = err\<rparr>, w'))"

section \<open>The Provisioner: \<open>scripts/create_token.py\<close>\<close>

text \<open>The attributes of a \<open>SolanaTokenCreator\<close>.\<close>

record creator =
  wallet_path :: string
  network :: string
  log_file :: string
  token_mint :: "string option"
  token_account :: "string option"

text \<open>\<open>SolanaTokenCreator.__init__\<close>: the log file is truncated and gets its header.\<close>

definition init :: "env \<Rightarrow> string \<Rightarrow> string \<Rightarrow> world \<Rightarrow> creator \<times> world" where
  "init E wallet net w =
     (let self = \<lparr>wallet_path = wallet, network = net, log_file = ''creation_log.txt'',
                  token_mint = None, token_account = None\<rparr>;
          (t, w1) = now E w
      in (self,
          write_file (log_file self)
            (''Token Creation Log - '' @ datetime_str E t @ NL @
             ''Network: '' @ net @ NL @
             replicate 50 (CHR ''='') @ NL @ NL) w1))"

text \<open>
  \<open>log\<close>: every call site leaves \<open>print_msg\<close> at its default \<open>True\<close>, so the message is
  always printed as well.
\<close>

definition log :: "env \<Rightarrow> creator \<Rightarrow> string \<Rightarrow> world \<Rightarrow> world" where
  "log E self message w =
     (let (t, w1) = now E w;
          log_entry = ''['' @ strftime E t @ ''] '' @ message @ NL
      in print message (append_file (log_file self) log_entry w1))"

definition run_command :: "env \<Rightarrow> creator \<Rightarrow> string list \<Rightarrow> world \<Rightarrow> (exn + completed) \<times> world" where
  "run_command E self command w =
     (let cmd_str = join '' '' command;
          w1 = log E self (''Executing: '' @ cmd_str) w
      in case subprocess_run E command w1 of
           (Inr result, w2) \<Rightarrow>
             (Inr result,
              if stdout result \<noteq> [] then log E self (''Output: '' @ strip (stdout result)) w2
              else w2)
         | (Inl (CalledProcessError rc cmd out err), w2) \<Rightarrow>
             (let error_msg = ''Command failed: '' @ cmd_str @ NL @ ''Error: '' @
                    (if err \<noteq> [] then err else called_process_error_str E cmd rc)
              in (Inl (Exception error_msg), log E self error_msg w2))
         | (Inl (OSError msg), w2) \<Rightarrow> (Inl (Exception msg), w2))"

text \<open>
  \<open>' '.join(command)\<close> raises a \<open>TypeError\<close> when the command holds \<open>None\<close> at position
  \<open>i\<close>, before anything is logged or run.
\<close>

definition join_type_error :: "nat \<Rightarrow> exn" where
  "join_type_error i =
     Exception (''sequence item '' @ str_nat i @ '': expected str instance, NoneType found'')"

definition get_wallet_balance :: "env \<Rightarrow> creator \<Rightarrow> world \<Rightarrow> pyfloat \<times> world" where
  "get_wallet_balance E self w =
     (let failed = (\<lambda>e w'. (Finite 0, log E self (''Failed to get wallet balance: '' @ str_exn e) w'))
      in case run_command E self [''solana'', ''balance'', ''--keypair'', wallet_path self] w of
           (Inl e, w1) \<Rightarrow> failed e w1
         | (Inr result, w1) \<Rightarrow>
             (case py_split (strip (stdout result)) of
                [] \<Rightarrow> failed (Exception ''list index out of range'') w1
              | balance_str # _ \<Rightarrow>
                  (case py_float E balance_str of
                     Inl msg \<Rightarrow> failed (Exception msg) w1
                   | Inr balance \<Rightarrow> (balance, w1))))"

text \<open>
  The address is the last word of the first output line that holds the marker; without
  such a line the attribute keeps the value it had.
\<close>

definition extract_address :: "string \<Rightarrow> string \<Rightarrow> string option \<Rightarrow> exn + string option" where
  "extract_address marker out old =
     (case find (py_in marker) (split_on (CHR 0x0A) (strip out)) of
        None \<Rightarrow> Inr old
      | Some line \<Rightarrow>
          (case py_split line of
             [] \<Rightarrow> Inl (Exception ''list index out of range'')
           | ws \<Rightarrow> Inr (Some (last ws))))"

definition create_token_mint ::
  "env \<Rightarrow> int \<Rightarrow> creator \<Rightarrow> world \<Rightarrow> (exn + string) \<times> creator \<times> world" where
  "create_token_mint E decimals self w =
     (let failed = (\<lambda>e self' w'.
            (Inl e, self', log E self' (''Failed to create token mint: '' @ str_exn e) w'));
          w0 = log E self ''Creating token mint...'' w
      in case run_command E self
                [''spl-token'', ''create-token'', ''--keypair'', wallet_path self,
                 ''--decimals'', str_int decimals] w0 of
           (Inl e, w1) \<Rightarrow> failed e self w1
         | (Inr result, w1) \<Rightarrow>
             (case extract_address ''Creating token'' (stdout result) (token_mint self) of
                Inl e \<Rightarrow> failed e self w1
              | Inr m \<Rightarrow>
                  (let self1 = self\<lparr>token_mint := m\<rparr>
                   in case m of
                        None \<Rightarrow>
                          failed (Exception ''Could not extract token mint address from output'')
                            self1 w1
                      | Some mint \<Rightarrow>
                          if mint = [] then
                            failed (Exception ''Could not extract token mint address from output'')
                              self1 w1
                          else
                            (Inr mint, self1,
                             write_file ''token_mint.txt'' mint
                               (log E self1 (''Token mint created: '' @ mint) w1)))))"

definition create_token_account ::
  "env \<Rightarrow> creator \<Rightarrow> world \<Rightarrow> (exn + string) \<times> creator \<times> world" where
  "create_token_account E self w =
     (let failed = (\<lambda>e self' w'.
            (Inl e, self', log E self' (''Failed to create token account: '' @ str_exn e) w'));
          w0 = log E self ''Creating token account...'' w
      in case token_mint self of
           None \<Rightarrow> failed (join_type_error 2) self w0
         | Some mint \<Rightarrow>
             (case run_command E self
                     [''spl-token'', ''create-account'', mint, ''--keypair'', wallet_path self] w0 of
                (Inl e, w1) \<Rightarrow> failed e self w1
              | (Inr result, w1) \<Rightarrow>
                  (case extract_address ''Creating account'' (stdout result) (token_account self) of
                     Inl e \<Rightarrow> failed e self w1
                   | Inr a \<Rightarrow>
                       (let self1 = self\<lparr>token_account := a\<rparr>
                        in case a of
                             None \<Rightarrow>
                               failed
                                 (Exception ''Could not extract token account address from output'')
                                 self1 w1
                           | Some account \<Rightarrow>
                               if account = [] then
                                 failed
                                   (Exception ''Could not extract token account address from output'')
                                   self1 w1
                               else
                                 (Inr account, self1,
                                  log E self1 (''Token account created: '' @ account) w1)))))"

text \<open>\<open>mint_tokens\<close> returns nothing: \<open>None\<close> is the normal return, \<open>Some e\<close> the exception.\<close>

definition mint_tokens :: "env \<Rightarrow> int \<Rightarrow> creator \<Rightarrow> world \<Rightarrow> exn option \<times> world" where
  "mint_tokens E amount self w =
     (let failed = (\<lambda>e w'. (Some e, log E self (''Failed to mint tokens: '' @ str_exn e) w'));
          w0 = log E self (''Minting '' @ str_int amount @ '' tokens...'') w
      in case token_mint self of
           None \<Rightarrow> failed (join_type_error 2) w0
         | Some mint \<Rightarrow>
             (case run_command E self
                     [''spl-token'', ''mint'', mint, str_int amount, ''--keypair'', wallet_path self]
                     w0 of
                (Inl e, w1) \<Rightarrow> failed e w1
              | (Inr result, w1) \<Rightarrow>
                  (None, log E self (''Successfully minted '' @ str_int amount @ '' tokens'') w1)))"

definition create_metadata ::
  "env \<Rightarrow> creator \<Rightarrow> string \<Rightarrow> string \<Rightarrow> string \<Rightarrow> string \<Rightarrow> world \<Rightarrow> pydict \<times> world" where
  "create_metadata E self name symbol description image_url w =
     (let w0 = log E self ''Creating token metadata...'' w;
          (t, w1) = now E w0;
          metadata =
            [(''name'', PStr name),
             (''symbol'', PStr symbol),
             (''description'', PStr description),
             (''image'', PStr image_url),
             (''mint'', case token_mint self of None \<Rightarrow> PNone | Some mint \<Rightarrow> PStr mint),
             (''decimals'', PInt 9),
             (''created_at'', PStr (isoformat E t)),
             (''network'', PStr (network self))];
          w2 = write_file ''token_metadata.json'' (json_dumps E (PDict metadata)) w1
      in (metadata, log E self ''Metadata created and saved to token_metadata.json'' w2))"

definition verify_token_creation :: "env \<Rightarrow> creator \<Rightarrow> world \<Rightarrow> bool \<times> world" where
  "verify_token_creation E self w =
     (let failed = (\<lambda>e w'. (False, log E self (''Token verification failed: '' @ str_exn e) w'));
          w0 = log E self ''Verifying token creation...'' w
      in case token_mint self of
           None \<Rightarrow> failed (join_type_error 2) w0
         | Some mint \<Rightarrow>
             (case run_command E self [''spl-token'', ''supply'', mint] w0 of
                (Inl e, w1) \<Rightarrow> failed e w1
              | (Inr result, w1) \<Rightarrow>
                  (let supply = strip (stdout result);
                       w2 = log E self (''Token supply: '' @ supply) w1
                   in case token_account self of
                        None \<Rightarrow> failed (join_type_error 3) w2
                      | Some account \<Rightarrow>
                          (case run_command E self
                                  [''spl-token'', ''balance'', ''--address'', account] w2 of
                             (Inl e, w3) \<Rightarrow> failed e w3
                           | (Inr result', w3) \<Rightarrow>
                               (let balance = strip (stdout result')
                                in (True, log E self (''Token account balance: '' @ balance) w3))))))"

text \<open>
  In the two revocations \<open>not self.token_mint\<close> holds for \<open>None\<close> and for the empty
  string.
\<close>

definition revoke_mint_authority :: "env \<Rightarrow> creator \<Rightarrow> world \<Rightarrow> bool \<times> world" where
  "revoke_mint_authority E self w =
     (case token_mint self of
        None \<Rightarrow> (False, log E self ''No token mint available for authority revocation'' w)
      | Some mint \<Rightarrow>
          if mint = [] then
            (False, log E self ''No token mint available for authority revocation'' w)
          else
            (let w0 = log E self ''Revoking mint authority...'' w
             in case run_command E self [''spl-token'', ''authorize'', mint, ''mint'', ''--disable''] w0 of
                  (Inl e, w1) \<Rightarrow>
                    (False, log E self (''Error revoking mint authority: '' @ str_exn e) w1)
                | (Inr result, w1) \<Rightarrow>
                    if returncode result = 0 then
                      (True, log E self ''Mint authority revoked successfully'' w1)
                    else
                      (False,
                       log E self (''Failed to revoke mint authority: '' @ stderr result) w1)))"

definition revoke_freeze_authority :: "env \<Rightarrow> creator \<Rightarrow> world \<Rightarrow> bool \<times> world" where
  "revoke_freeze_authority E self w =
     (case token_mint self of
        None \<Rightarrow> (False, log E self ''No token mint available for authority revocation'' w)
      | Some mint \<Rightarrow>
          if mint = [] then
            (False, log E self ''No token mint available for authority revocation'' w)
          else
            (let w0 = log E self ''Revoking freeze authority...'' w
             in case run_command E self [''spl-token'', ''authorize'', mint, ''freeze'', ''--disable''] w0 of
                  (Inl e, w1) \<Rightarrow>
                    (False, log E self (''Error revoking freeze authority: '' @ str_exn e) w1)
                | (Inr result, w1) \<Rightarrow>
                    if returncode result = 0 then
                      (True, log E self ''Freeze authority revoked successfully'' w1)
                    else
                      (False,
                       log E self (''Failed to revoke freeze authority: '' @ stderr result) w1)))"

text \<open>
  The literal \<open>0.01\<close> is the double nearest to one hundredth, which is
  \<open>5764607523034235 / 2 ^ 59\<close>.
\<close>

definition min_balance :: pyfloat where
  "min_balance = Finite (5764607523034235 / 2 ^ 59)"

text \<open>The \<open>except\<close> clause of \<open>create_token\<close> and the dictionary it returns.\<close>

definition error_result :: "string \<Rightarrow> string \<Rightarrow> pydict" where
  "error_result message net =
     [(''success'', PBool False),
      (''error'', PStr message),
      (''network'', PStr net)]"

definition create_token_failed ::
  "env \<Rightarrow> exn \<Rightarrow> creator \<Rightarrow> world \<Rightarrow> pydict \<times> creator \<times> world" where
  "create_token_failed E e self w =
     (error_result (str_exn e) (network self), self,
      log E self (''Token creation failed: '' @ str_exn e) w)"

text \<open>The part of \<open>create_token\<close> after the verification: the optional revocations.\<close>

definition create_token_finish ::
  "env \<Rightarrow> creator \<Rightarrow> string \<Rightarrow> string \<Rightarrow> pydict \<Rightarrow> bool \<Rightarrow> bool \<Rightarrow> world
     \<Rightarrow> pydict \<times> creator \<times> world" where
  "create_token_finish E self mint_address account_address metadata revoke_mint revoke_freeze w =
     (let revocation_results = [];
          (revocation_results, w1) =
            (if revoke_mint then
               (let (b, w') = revoke_mint_authority E self w
                in (dict_set revocation_results ''mint_authority_revoked'' (PBool b), w'))
             else (revocation_results, w));
          (revocation_results, w2) =
            (if revoke_freeze then
               (let (b, w') = revoke_freeze_authority E self w1
                in (dict_set revocation_results ''freeze_authority_revoked'' (PBool b), w'))
             else (revocation_results, w1));
          result =
            [(''success'', PBool True),
             (''mint_address'', PStr mint_address),
             (''token_account'', PStr account_address),
             (''metadata'', PDict metadata),
             (''network'', PStr (network self))];
          result =
            (if revocation_results \<noteq> [] then
               dict_set result ''authority_revocation'' (PDict revocation_results)
             else result)
      in (result, self, log E self ''Token creation completed successfully!'' w2))"

text \<open>
  The steps of \<open>create_token\<close> from the balance check to the metadata: \<open>Inl e\<close> is the
  exception that leaves the \<open>try\<close> block, \<open>Inr\<close> carries \<open>mint_address\<close>,
  \<open>account_address\<close> and \<open>metadata\<close>.
\<close>

definition create_token_steps ::
  "env \<Rightarrow> creator \<Rightarrow> string \<Rightarrow> string \<Rightarrow> string \<Rightarrow> int \<Rightarrow> int \<Rightarrow> string \<Rightarrow> world
     \<Rightarrow> (exn + string \<times> string \<times> pydict) \<times> creator \<times> world" where
  "create_token_steps E self name symbol description supply decimals image_url w0 =
     (let (balance, w1) = get_wallet_balance E self w0;
          w2 = log E self (''Wallet balance: '' @ float_str E balance @ '' SOL'') w1
      in if float_lt balance min_balance then
           (Inl (Exception ''Insufficient SOL balance for token creation''), self, w2)
         else
           (case create_token_mint E decimals self w2 of
              (Inl e, self3, w3) \<Rightarrow> (Inl e, self3, w3)
            | (Inr mint_address, self3, w3) \<Rightarrow>
                (case create_token_account E self3 w3 of
                   (Inl e, self4, w4) \<Rightarrow> (Inl e, self4, w4)
                 | (Inr account_address, self4, w4) \<Rightarrow>
                     (case mint_tokens E supply self4 w4 of
                        (Some e, w5) \<Rightarrow> (Inl e, self4, w5)
                      | (None, w5) \<Rightarrow>
                          (let (metadata, w6) =
                                 create_metadata E self4 name symbol description image_url w5
                           in (Inr (mint_address, account_address, metadata), self4, w6))))))"

text \<open>The first line \<open>create_token\<close> logs.\<close>

definition starting_message :: "string \<Rightarrow> string \<Rightarrow> string" where
  "starting_message name symbol =
     ''Starting token creation process for '' @ SQ @ name @ SQ @ '' ('' @ symbol @ '')''"

definition create_token ::
  "env \<Rightarrow> creator \<Rightarrow> string \<Rightarrow> string \<Rightarrow> string \<Rightarrow> int \<Rightarrow> int \<Rightarrow> string \<Rightarrow> bool \<Rightarrow> bool \<Rightarrow> world
     \<Rightarrow> pydict \<times> creator \<times> world" where
  "create_token E self name symbol description supply decimals image_url
       revoke_mint revoke_freeze w =
     (let w0 = log E self (starting_message name symbol) w
      in case create_token_steps E self name symbol description supply decimals image_url w0 of
           (Inl e, self', w') \<Rightarrow> create_token_failed E e self' w'
         | (Inr (mint_address, account_address, metadata), self', w') \<Rightarrow>
             (case verify_token_creation E self' w' of
                (False, w'') \<Rightarrow>
                  create_token_failed E (Exception ''Token verification failed'') self' w''
              | (True, w'') \<Rightarrow>
                  create_token_finish E self' mint_address account_address metadata
                    revoke_mint revoke_freeze w''))"

subsection \<open>The command line: \<open>main\<close>\<close>

text \<open>The arguments as \<open>argparse\<close> delivers them.\<close>

record args =
  arg_wallet_path :: string
  arg_name :: string
  arg_symbol :: string
  arg_description :: string
  arg_supply :: int
  arg_decimals :: int
  arg_image_url :: string
  arg_revoke_mint_authority :: bool
  arg_revoke_freeze_authority :: bool
  arg_network :: string

text \<open>The three symbols of the banner, as their UTF-8 bytes.\<close>

definition check_mark :: string where
  "check_mark = [CHR 0xE2, CHR 0x9C, CHR 0x85]"

definition cross_mark :: string where
  "cross_mark = [CHR 0xE2, CHR 0x9D, CHR 0x8C]"

definition lock_sign :: string where
  "lock_sign = [CHR 0xF0, CHR 0x9F, CHR 0x94, CHR 0x92]"

text \<open>\<open>d[k]\<close> on a dictionary; a missing key raises \<open>KeyError\<close>.\<close>

definition getitem :: "pydict \<Rightarrow> string \<Rightarrow> exn + pyval" where
  "getitem d k = (case map_of d k of None \<Rightarrow> Inl (Exception (SQ @ k @ SQ)) | Some v \<Rightarrow> Inr v)"

text \<open>\<open>k in v\<close> and \<open>v[k]\<close> for a string \<open>k\<close> and any value \<open>v\<close>.\<close>

fun type_name :: "pyval \<Rightarrow> string" where
  "type_name PNone = ''NoneType''"
| "type_name (PBool b) = ''bool''"
| "type_name (PInt i) = ''int''"
| "type_name (PFloat f) = ''float''"
| "type_name (PStr s) = ''str''"
| "type_name (PList xs) = ''list''"
| "type_name (PDict d) = ''dict''"

fun py_contains :: "pyval \<Rightarrow> string \<Rightarrow> exn + bool" where
  "py_contains (PDict d) k = Inr (has_key d k)"
| "py_contains (PStr s) k = Inr (py_in k s)"
| "py_contains (PList xs) k = Inr (PStr k \<in> set xs)"
| "py_contains v k =
     Inl (Exception (''argument of type '' @ SQ @ type_name v @ SQ @ '' is not iterable''))"

fun subscript :: "pyval \<Rightarrow> string \<Rightarrow> exn + pyval" where
  "subscript (PDict d) k = getitem d k"
| "subscript v k = Inl (Exception (SQ @ type_name v @ SQ @ '' object is not subscriptable by str''))"

text \<open>A value inside an f-string: a string is itself, anything else is rendered by Python.\<close>

definition fmt :: "env \<Rightarrow> pyval \<Rightarrow> string" where
  "fmt E v = (case v of PStr s \<Rightarrow> s | _ \<Rightarrow> format_val E v)"

text \<open>
  One of the two sibling blocks \<open>if '<key>' in revocation: ... print(...)\<close>; \<open>Some e\<close> is
  an exception that escapes.
\<close>

definition print_revocation_status ::
  "pyval \<Rightarrow> string \<Rightarrow> string \<Rightarrow> world \<Rightarrow> exn option \<times> world" where
  "print_revocation_status revocation key label w =
     (case py_contains revocation key of
        Inl e \<Rightarrow> (Some e, w)
      | Inr False \<Rightarrow> (None, w)
      | Inr True \<Rightarrow>
          (case subscript revocation key of
             Inl e \<Rightarrow> (Some e, w)
           | Inr v \<Rightarrow>
               (let status = (if truthy v then check_mark @ '' Success''
                              else cross_mark @ '' Failed'')
                in (None, print (''  '' @ label @ '': '' @ status) w))))"

text \<open>
  The block \<open>if 'authority_revocation' in result: ...\<close> of \<open>main\<close>; \<open>Some e\<close> is an
  exception that escapes.
\<close>

definition print_revocation_results :: "pydict \<Rightarrow> world \<Rightarrow> exn option \<times> world" where
  "print_revocation_results result w =
     (if has_key result ''authority_revocation'' then
        (let w1 = print (NL @ lock_sign @ '' Authority Revocation Results:'') w
         in case getitem result ''authority_revocation'' of
              Inl e \<Rightarrow> (Some e, w1)
            | Inr revocation \<Rightarrow>
                (case print_revocation_status revocation
                        ''mint_authority_revoked'' ''Mint Authority'' w1 of
                   (Some e, w2) \<Rightarrow> (Some e, w2)
                 | (None, w2) \<Rightarrow>
                     print_revocation_status revocation
                       ''freeze_authority_revoked'' ''Freeze Authority'' w2))
      else (None, w))"

text \<open>
  The part of \<open>main\<close> under \<open># Output result\<close>. \<open>Inr n\<close> is the exit status (0 when
  \<open>main\<close> returns), \<open>Inl e\<close> an exception nobody catches.
\<close>

definition main_output :: "env \<Rightarrow> args \<Rightarrow> pydict \<Rightarrow> world \<Rightarrow> (exn + int) \<times> world" where
  "main_output E args result w =
     (case getitem result ''success'' of
        Inl e \<Rightarrow> (Inl e, w)
      | Inr ok \<Rightarrow>
          if truthy ok then
            (let w1 = print (NL @ check_mark @ '' Token created successfully!'') w
             in case getitem result ''mint_address'' of
                  Inl e \<Rightarrow> (Inl e, w1)
                | Inr mint \<Rightarrow>
             (let w2 = print (''Mint Address: '' @ fmt E mint) w1
              in case getitem result ''token_account'' of
                   Inl e \<Rightarrow> (Inl e, w2)
                 | Inr account \<Rightarrow>
              (let w3 = print (''Token Account: '' @ fmt E account) w2
               in case getitem result ''network'' of
                    Inl e \<Rightarrow> (Inl e, w3)
                  | Inr net \<Rightarrow>
               (let w4 = print (''Network: '' @ fmt E net) w3
                in case print_revocation_results result w4 of
                     (Some e, w5) \<Rightarrow> (Inl e, w5)
                   | (None, w5) \<Rightarrow>
                       if arg_network args = ''devnet'' then
                         (Inr 0,
                          print (NL @ ''Explorer: https://explorer.solana.com/address/'' @
                                 fmt E mint @ ''?cluster=devnet'') w5)
                       else
                         (Inr 0,
                          print (NL @ ''Explorer: https://explorer.solana.com/address/'' @
                                 fmt E mint) w5)))))
          else
            (case getitem result ''error'' of
               Inl e \<Rightarrow> (Inl e, w)
             | Inr err \<Rightarrow> (Inr 1, print (NL @ cross_mark @ '' Token creation failed: '' @ fmt E err) w)))"

definition main :: "env \<Rightarrow> args \<Rightarrow> world \<Rightarrow> (exn + int) \<times> world" where
  "main E args w =
     (if \<not> path_exists w (arg_wallet_path args) then
        (Inr 1, print (''Error: Wallet file not found: '' @ arg_wallet_path args) w)
      else if arg_decimals args < 0 \<or> arg_decimals args > 9 then
        (Inr 1, print ''Error: Decimals must be between 0 and 9'' w)
      else if arg_supply args \<le> 0 then
        (Inr 1, print ''Error: Supply must be greater than 0'' w)
      else
        (let (creator, w1) = init E (arg_wallet_path args) (arg_network args) w;
             (result, creator', w2) =
               create_token E creator (arg_name args) (arg_symbol args) (arg_description args)
                 (arg_supply args) (arg_decimals args) (arg_image_url args)
                 (arg_revoke_mint_authority args) (arg_revoke_freeze_authority args) w1
         in main_output E args result w2))"

section \<open>The Report Renderer: \<open>scripts/generate_report.py\<close>\<close>







text \<open>
  The attributes of a \<open>TokenReportGenerator\<close> that are read (\<open>report_data\<close> is never
  used); its \<open>network\<close> is named \<open>report_network\<close> here.
\<close>

record generator =
  mint_address :: string
  report_network :: string


text \<open>
  \<open>TokenReportGenerator.run_command\<close>: a failed command is reported on the console and
  gives \<open>None\<close>; a command that cannot be started raises.
\<close>

definition report_run_command ::
  "env \<Rightarrow> string list \<Rightarrow> world \<Rightarrow> (exn + completed option) \<times> world" where
  "report_run_command E command w =
     (case subprocess_run E command w of
        (Inr result, w1) \<Rightarrow> (Inr (Some result), w1)
      | (Inl (CalledProcessError rc cmd out err), w1) \<Rightarrow>
          (Inr None,
           print (''Error: '' @ (if err \<noteq> [] then err else called_process_error_str E cmd rc))
             (print (''Command failed: '' @ join '' '' command) w1))
      | (Inl (OSError msg), w1) \<Rightarrow> (Inl (Exception msg), w1))"

definition get_token_info :: "env \<Rightarrow> generator \<Rightarrow> world \<Rightarrow> pydict \<times> world" where
  "get_token_info E self w =
     (let failed = (\<lambda>e w'.
            ([(''supply'', PStr ''Unknown''), (''account_info'', PDict [])],
             print (''Error getting token info: '' @ str_exn e) w'))
      in case report_run_command E [''spl-token'', ''supply'', mint_address self] w of
           (Inl e, w1) \<Rightarrow> failed e w1
         | (Inr result, w1) \<Rightarrow>
             (let supply = (case result of Some r \<Rightarrow> strip (stdout r) | None \<Rightarrow> ''Unknown'')
              in case report_run_command E
                        [''solana'', ''account'', mint_address self, ''--output'', ''json''] w1 of
                   (Inl e, w2) \<Rightarrow> failed e w2
                 | (Inr result', w2) \<Rightarrow>
                     (case (case result' of
                              Some r \<Rightarrow> json_loads E (stdout r)
                            | None \<Rightarrow> Inr (PDict [])) of
                        Inl msg \<Rightarrow> failed (Exception msg) w2
                      | Inr account_info \<Rightarrow>
                          ([(''supply'', PStr supply), (''account_info'', account_info)], w2))))"



subsection \<open>The template of the report\<close>






























section \<open>Auxiliary notions for the proofs\<close>

text \<open>The log file starts with the text \<open>p\<close>.\<close>

definition log_prefix :: "string \<Rightarrow> string \<Rightarrow> world \<Rightarrow> bool" where
  "log_prefix path p w = (\<exists>rest. files w path = Some (p @ rest))"

text \<open>
  What \<open>run_command\<close> returns, and the balance \<open>get_wallet_balance\<close> reads, as
  functions of the tool and of the commands run so far.
\<close>

definition run_result :: "env \<Rightarrow> string list list \<Rightarrow> string list \<Rightarrow> exn + completed" where
  "run_result E history c =
     (case tool E history c of
        SpawnError msg \<Rightarrow> Inl (Exception msg)
      | Exited rc out err \<Rightarrow>
          if rc \<noteq> 0 then
            Inl (Exception (''Command failed: '' @ join '' '' c @ NL @ ''Error: '' @
                   (if err \<noteq> [] then err else called_process_error_str E c rc)))
          else Inr \<lparr>returncode = rc, stdout = out, stderr = err\<rparr>)"

definition balance_of :: "env \<Rightarrow> string list list \<Rightarrow> creator \<Rightarrow> pyfloat" where
  "balance_of E history self =
     (case run_result E history [''solana'', ''balance'', ''--keypair'', wallet_path self] of
        Inl e \<Rightarrow> Finite 0
      | Inr result \<Rightarrow>
          (case py_split (strip (stdout result)) of
             [] \<Rightarrow> Finite 0
           | balance_str # _ \<Rightarrow>
               (case py_float E balance_str of Inl msg \<Rightarrow> Finite 0 | Inr balance \<Rightarrow> balance)))"

section \<open>A concrete environment\<close>

text \<open>
  An external tool for the examples below. Commands whose first two words are listed in
  \<open>failing\<close> exit with status 1; the balance query and the mint creation print the given
  texts; every other command succeeds.
\<close>

definition account_out :: string where
  "account_out = ''Creating account AcctAddr1'' @ NL"

definition rich_balance_out :: string where
  "rich_balance_out = ''1.5 SOL'' @ NL"

definition poor_balance_out :: string where
  "poor_balance_out = ''0.005 SOL'' @ NL"

definition bad_mint_out :: string where
  "bad_mint_out = ''Done'' @ NL"

definition demo_tool ::
  "string list list \<Rightarrow> string \<Rightarrow> string \<Rightarrow> string list list \<Rightarrow> string list \<Rightarrow> proc_outcome" where
  "demo_tool failing balance_out mint_out history command =
     (if take 2 command \<in> set failing then Exited 1 [] ''boom''
      else if take 2 command = [''solana'', ''balance''] then Exited 0 balance_out []
      else if take 2 command = [''spl-token'', ''create-token''] then Exited 0 mint_out []
      else if take 2 command = [''spl-token'', ''create-account''] then
        Exited 0 account_out []
      else Exited 0 (''500'' @ NL) [])"

definition demo_env :: "string list list \<Rightarrow> string \<Rightarrow> string \<Rightarrow> env" where
  "demo_env failing balance_out mint_out =
     \<lparr>tool = demo_tool failing balance_out mint_out,
      clock = (\<lambda>k. k),
      datetime_str = (\<lambda>t. ''2024-01-01 00:00:00''),
      strftime = (\<lambda>t. ''2024-01-01 00:00:00''),
      isoformat = (\<lambda>t. ''2024-01-01T00:00:00''),
      py_float = (\<lambda>s. if s = ''1.5'' then Inr (Finite (3 / 2))
                       else if s = ''0.005'' then Inr (Finite (1 / 200))
                       else Inl ''could not convert string to float''),
      float_str = (\<lambda>f. ''?''),
      called_process_error_str = (\<lambda>cmd rc. ''Command returned non-zero exit status''),
      json_dumps = (\<lambda>v. ''{...}''),
      json_loads = (\<lambda>s. Inl ''Expecting value''),
      format_val = (\<lambda>v. ''?'')\<rparr>"

definition good_mint_out :: string where
  "good_mint_out = ''Creating token MintAddr1'' @ NL @ NL @ ''Signature: abc'' @ NL"

definition demo_self :: "string \<Rightarrow> creator" where
  "demo_self net = \<lparr>wallet_path = ''wallet.json'', network = net,
     log_file = ''creation_log.txt'', token_mint = None, token_account = None\<rparr>"

definition demo_world :: world where
  "demo_world = \<lparr>files = [''wallet.json'' \<mapsto> ''[1,2,3]''], calls = [], console = [], ticks = 0\<rparr>"

definition demo_args :: "int \<Rightarrow> bool \<Rightarrow> bool \<Rightarrow> string \<Rightarrow> args" where
  "demo_args decimals revoke_mint revoke_freeze net =
     \<lparr>arg_wallet_path = ''wallet.json'', arg_name = ''Test'', arg_symbol = ''TST'',
      arg_description = [], arg_supply = 500, arg_decimals = decimals, arg_image_url = [],
      arg_revoke_mint_authority = revoke_mint, arg_revoke_freeze_authority = revoke_freeze,
      arg_network = net\<rparr>"

section \<open>Effects of the operations\<close>

lemma now_simps [simp]:
  "fst (now E w) = clock E (ticks w)" "snd (now E w) = w\<lparr>ticks := Suc (ticks w)\<rparr>"
  by (simp_all add: now_def)

lemma print_simps [simp]:
  "calls (print m w) = calls w" "files (print m w) = files w"
  "console (print m w) = console w @ [m]" "ticks (print m w) = ticks w"
  by (simp_all add: print_def)

lemma write_file_simps [simp]:
  "calls (write_file p t w) = calls w" "files (write_file p t w) = (files w)(p \<mapsto> t)"
  "console (write_file p t w) = console w" "ticks (write_file p t w) = ticks w"
  by (simp_all add: write_file_def)

lemma log_simps [simp]:
  "calls (log E self m w) = calls w"
  "console (log E self m w) = console w @ [m]"
  "ticks (log E self m w) = Suc (ticks w)"
  by (simp_all add: log_def split_def Let_def append_file_def)

lemma files_log_other [simp]: "p \<noteq> log_file self \<Longrightarrow> files (log E self m w) p = files w p"
  by (simp add: log_def split_def Let_def append_file_def)

lemma log_prefix_log [simp]:
  "log_file self = l \<Longrightarrow> log_prefix l p w \<Longrightarrow> log_prefix l p (log E self m w)"
  by (auto simp: log_prefix_def log_def split_def Let_def append_file_def)

lemma log_prefix_write_file [simp]:
  "path \<noteq> l \<Longrightarrow> log_prefix l p (write_file path t w) = log_prefix l p w"
  by (simp add: log_prefix_def)

lemma log_prefix_updates [simp]:
  "log_prefix l p (w\<lparr>ticks := t\<rparr>) = log_prefix l p w"
  "log_prefix l p (w\<lparr>calls := c\<rparr>) = log_prefix l p w"
  "log_prefix l p (w\<lparr>console := k\<rparr>) = log_prefix l p w"
  by (simp_all add: log_prefix_def)

lemma subprocess_run_simps [simp]:
  "calls (snd (subprocess_run E c w)) = calls w @ [c]"
  "files (snd (subprocess_run E c w)) = files w"
  "console (snd (subprocess_run E c w)) = console w"
  "ticks (snd (subprocess_run E c w)) = ticks w"
  by (simp_all add: subprocess_run_def Let_def split: proc_outcome.splits)

lemma log_prefix_subprocess_run [simp]:
  "log_prefix l p (snd (subprocess_run E c w)) = log_prefix l p w"
  by (simp add: log_prefix_def)

lemma calls_run_command [simp]: "calls (snd (run_command E self c w)) = calls w @ [c]"
  by (simp add: run_command_def Let_def split_beta split: sum.splits run_error.splits)

lemma files_run_command [simp]:
  "p \<noteq> log_file self \<Longrightarrow> files (snd (run_command E self c w)) p = files w p"
  by (simp add: run_command_def Let_def split_beta split: sum.splits run_error.splits)

lemma log_prefix_run_command [simp]:
  "log_file self = l \<Longrightarrow> log_prefix l p w \<Longrightarrow> log_prefix l p (snd (run_command E self c w))"
  by (simp add: run_command_def Let_def split_beta split: sum.splits run_error.splits)

lemma calls_get_wallet_balance [simp]:
  "calls (snd (get_wallet_balance E self w)) =
     calls w @ [[''solana'', ''balance'', ''--keypair'', wallet_path self]]"
  by (simp add: get_wallet_balance_def Let_def split_beta split: sum.splits list.splits)

lemma files_get_wallet_balance [simp]:
  "p \<noteq> log_file self \<Longrightarrow> files (snd (get_wallet_balance E self w)) p = files w p"
  by (simp add: get_wallet_balance_def Let_def split_beta split: sum.splits list.splits)

lemma log_prefix_get_wallet_balance [simp]:
  "log_file self = l \<Longrightarrow> log_prefix l p w \<Longrightarrow> log_prefix l p (snd (get_wallet_balance E self w))"
  by (simp add: get_wallet_balance_def Let_def split_beta split: sum.splits list.splits)

lemma creator_create_token_mint [simp]:
  "log_file (fst (snd (create_token_mint E d self w))) = log_file self"
  "network (fst (snd (create_token_mint E d self w))) = network self"
  "wallet_path (fst (snd (create_token_mint E d self w))) = wallet_path self"
  "token_account (fst (snd (create_token_mint E d self w))) = token_account self"
  by (simp_all add: create_token_mint_def Let_def split_beta split: sum.splits option.splits)

lemma calls_create_token_mint [simp]:
  "calls (snd (snd (create_token_mint E d self w))) =
     calls w @ [[''spl-token'', ''create-token'', ''--keypair'', wallet_path self,
                 ''--decimals'', str_int d]]"
  by (simp add: create_token_mint_def Let_def split_beta split: sum.splits option.splits)

lemma log_prefix_create_token_mint [simp]:
  "log_file self = ''creation_log.txt'' \<Longrightarrow> log_prefix ''creation_log.txt'' p w \<Longrightarrow>
   log_prefix ''creation_log.txt'' p (snd (snd (create_token_mint E d self w)))"
  apply (simp add: create_token_mint_def Let_def split_beta split: sum.splits option.splits)
  done

lemma creator_create_token_account [simp]:
  "log_file (fst (snd (create_token_account E self w))) = log_file self"
  "network (fst (snd (create_token_account E self w))) = network self"
  "wallet_path (fst (snd (create_token_account E self w))) = wallet_path self"
  "token_mint (fst (snd (create_token_account E self w))) = token_mint self"
  by (simp_all add: create_token_account_def Let_def split_beta split: sum.splits option.splits)

lemma log_prefix_create_token_account [simp]:
  "log_file self = l \<Longrightarrow> log_prefix l p w \<Longrightarrow>
   log_prefix l p (snd (snd (create_token_account E self w)))"
  by (simp add: create_token_account_def Let_def split_beta split: sum.splits option.splits)

lemma files_create_token_account [simp]:
  "p \<noteq> log_file self \<Longrightarrow> files (snd (snd (create_token_account E self w))) p = files w p"
  by (simp add: create_token_account_def Let_def split_beta split: sum.splits option.splits)

lemma log_prefix_mint_tokens [simp]:
  "log_file self = l \<Longrightarrow> log_prefix l p w \<Longrightarrow> log_prefix l p (snd (mint_tokens E n self w))"
  by (simp add: mint_tokens_def Let_def split_beta split: sum.splits option.splits)

lemma files_mint_tokens [simp]:
  "p \<noteq> log_file self \<Longrightarrow> files (snd (mint_tokens E n self w)) p = files w p"
  by (simp add: mint_tokens_def Let_def split_beta split: sum.splits option.splits)

lemma log_prefix_create_metadata [simp]:
  "log_file self = ''creation_log.txt'' \<Longrightarrow> log_prefix ''creation_log.txt'' p w \<Longrightarrow>
   log_prefix ''creation_log.txt'' p (snd (create_metadata E self n s d i w))"
  by (simp add: create_metadata_def Let_def split_beta)

lemma files_create_metadata:
  "log_file self = ''creation_log.txt'' \<Longrightarrow>
   files (snd (create_metadata E self n s d i w)) ''token_metadata.json'' =
     Some (json_dumps E (PDict (fst (create_metadata E self n s d i w))))"
  by (simp add: create_metadata_def Let_def split_beta)

lemma decimals_create_metadata:
  "map_of (fst (create_metadata E self n s d i w)) ''decimals'' = Some (PInt 9)"
  by (simp add: create_metadata_def Let_def split_beta)

lemma log_prefix_verify_token_creation [simp]:
  "log_file self = l \<Longrightarrow> log_prefix l p w \<Longrightarrow>
   log_prefix l p (snd (verify_token_creation E self w))"
  by (simp add: verify_token_creation_def Let_def split_beta split: sum.splits option.splits)

lemma files_verify_token_creation [simp]:
  "p \<noteq> log_file self \<Longrightarrow> files (snd (verify_token_creation E self w)) p = files w p"
  by (simp add: verify_token_creation_def Let_def split_beta split: sum.splits option.splits)

lemma log_prefix_revoke_mint_authority [simp]:
  "log_file self = l \<Longrightarrow> log_prefix l p w \<Longrightarrow>
   log_prefix l p (snd (revoke_mint_authority E self w))"
  by (simp add: revoke_mint_authority_def Let_def split_beta split: sum.splits option.splits)

lemma files_revoke_mint_authority [simp]:
  "p \<noteq> log_file self \<Longrightarrow> files (snd (revoke_mint_authority E self w)) p = files w p"
  by (simp add: revoke_mint_authority_def Let_def split_beta split: sum.splits option.splits)

lemma log_prefix_revoke_freeze_authority [simp]:
  "log_file self = l \<Longrightarrow> log_prefix l p w \<Longrightarrow>
   log_prefix l p (snd (revoke_freeze_authority E self w))"
  by (simp add: revoke_freeze_authority_def Let_def split_beta split: sum.splits option.splits)

lemma files_revoke_freeze_authority [simp]:
  "p \<noteq> log_file self \<Longrightarrow> files (snd (revoke_freeze_authority E self w)) p = files w p"
  by (simp add: revoke_freeze_authority_def Let_def split_beta split: sum.splits option.splits)

lemma log_prefix_create_token_failed [simp]:
  "log_file self = l \<Longrightarrow> log_prefix l p w \<Longrightarrow>
   log_prefix l p (snd (snd (create_token_failed E e self w)))"
  by (simp add: create_token_failed_def Let_def)

lemma files_create_token_failed [simp]:
  "p \<noteq> log_file self \<Longrightarrow> files (snd (snd (create_token_failed E e self w))) p = files w p"
  by (simp add: create_token_failed_def Let_def)

lemma log_prefix_create_token_finish [simp]:
  "log_file self = l \<Longrightarrow> log_prefix l p w \<Longrightarrow>
   log_prefix l p (snd (snd (create_token_finish E self m a md rm rf w)))"
  by (simp add: create_token_finish_def Let_def split_beta)

lemma files_create_token_finish [simp]:
  "p \<noteq> log_file self \<Longrightarrow>
   files (snd (snd (create_token_finish E self m a md rm rf w))) p = files w p"
  by (simp add: create_token_finish_def Let_def split_beta)

lemma log_file_create_token_steps [simp]:
  "log_file (fst (snd (create_token_steps E self n s d amt dec i w))) = log_file self"
  by (simp add: create_token_steps_def Let_def split_beta split: sum.splits option.splits)

lemma log_prefix_create_token_steps [simp]:
  "log_file self = ''creation_log.txt'' \<Longrightarrow> log_prefix ''creation_log.txt'' p w \<Longrightarrow>
   log_prefix ''creation_log.txt'' p (snd (snd (create_token_steps E self n s d amt dec i w)))"
  by (simp add: create_token_steps_def Let_def split_beta split: sum.splits option.splits)

lemma log_prefix_create_token:
  "log_file self = ''creation_log.txt'' \<Longrightarrow> log_prefix ''creation_log.txt'' p w \<Longrightarrow>
   log_prefix ''creation_log.txt'' p
     (snd (snd (create_token E self n s d amt dec i rm rf w)))"
  by (simp add: create_token_def Let_def split_beta split: sum.splits bool.splits)

lemma fst_subprocess_run:
  "fst (subprocess_run E c w) =
     (case tool E (calls w) c of
        SpawnError msg \<Rightarrow> Inl (OSError msg)
      | Exited rc out err \<Rightarrow>
          if rc \<noteq> 0 then Inl (CalledProcessError rc c out err)
          else Inr \<lparr>returncode = rc, stdout = out, stderr = err\<rparr>)"
  by (simp add: subprocess_run_def Let_def split: proc_outcome.splits)

lemma fst_run_command: "fst (run_command E self c w) = run_result E (calls w) c"
  by (simp add: run_command_def run_result_def Let_def split_beta fst_subprocess_run
      split: proc_outcome.splits)

lemma run_result_returncode: "run_result E h c = Inr r \<Longrightarrow> returncode r = 0"
  by (auto simp: run_result_def split: proc_outcome.splits if_splits)

lemma fst_get_wallet_balance: "fst (get_wallet_balance E self w) = balance_of E (calls w) self"
  by (simp add: get_wallet_balance_def balance_of_def Let_def split_beta fst_run_command
      split: sum.splits list.splits)

lemma float_lt_zero_min [simp]: "float_lt (Finite 0) min_balance"
  by (simp add: min_balance_def)

lemma create_token_steps_poor:
  "float_lt (balance_of E (calls w) self) min_balance \<Longrightarrow>
   fst (create_token_steps E self n s d amt dec i w) =
     Inl (Exception ''Insufficient SOL balance for token creation'') \<and>
   fst (snd (create_token_steps E self n s d amt dec i w)) = self \<and>
   calls (snd (snd (create_token_steps E self n s d amt dec i w))) =
     calls w @ [[''solana'', ''balance'', ''--keypair'', wallet_path self]]"
  by (simp add: create_token_steps_def Let_def split_beta fst_get_wallet_balance)

lemma create_token_poor:
  assumes "float_lt (balance_of E (calls w) self) min_balance"
  shows "fst (create_token E self n s d amt dec i rm rf w) =
           error_result ''Insufficient SOL balance for token creation'' (network self) \<and>
         calls (snd (snd (create_token E self n s d amt dec i rm rf w))) =
           calls w @ [[''solana'', ''balance'', ''--keypair'', wallet_path self]]"
  using create_token_steps_poor[of E "log E self (starting_message n s) w" self n s d amt dec i] assms
  by (simp add: create_token_def Let_def split_beta create_token_failed_def)

lemma creator_create_token_steps [simp]:
  "network (fst (snd (create_token_steps E self n s d amt dec i w))) = network self"
  "wallet_path (fst (snd (create_token_steps E self n s d amt dec i w))) = wallet_path self"
  by (simp_all add: create_token_steps_def Let_def split_beta split: sum.splits option.splits)

lemma extract_address_no_marker:
  "\<forall>line \<in> set (split_on (CHR 0x0A) (strip out)). \<not> py_in marker line \<Longrightarrow>
   extract_address marker out old = Inr old"
  by (simp add: extract_address_def find_None_iff[THEN iffD2])

lemma create_token_mint_no_marker:
  assumes "token_mint self = None"
      and "tool E (calls w) [''spl-token'', ''create-token'', ''--keypair'', wallet_path self,
                 ''--decimals'', str_int d] = Exited 0 out err"
      and "\<forall>line \<in> set (split_on (CHR 0x0A) (strip out)). \<not> py_in ''Creating token'' line"
  shows "fst (create_token_mint E d self w) =
           Inl (Exception ''Could not extract token mint address from output'')"
  using assms
  by (simp add: create_token_mint_def Let_def split_beta fst_run_command run_result_def
      extract_address_no_marker)

lemma create_token_steps_no_mint_marker:
  assumes "token_mint self = None"
      and "\<not> float_lt (balance_of E (calls w) self) min_balance"
      and "tool E (calls w @ [[''solana'', ''balance'', ''--keypair'', wallet_path self]])
             [''spl-token'', ''create-token'', ''--keypair'', wallet_path self,
              ''--decimals'', str_int dec] = Exited 0 out err"
      and "\<forall>line \<in> set (split_on (CHR 0x0A) (strip out)). \<not> py_in ''Creating token'' line"
  shows "fst (create_token_steps E self n s d amt dec i w) =
           Inl (Exception ''Could not extract token mint address from output'') \<and>
         network (fst (snd (create_token_steps E self n s d amt dec i w))) = network self \<and>
         calls (snd (snd (create_token_steps E self n s d amt dec i w))) =
           calls w @ [[''solana'', ''balance'', ''--keypair'', wallet_path self],
                      [''spl-token'', ''create-token'', ''--keypair'', wallet_path self,
                       ''--decimals'', str_int dec]]"
proof -
  let ?w1 = "snd (get_wallet_balance E self w)"
  let ?w2 = "log E self (''Wallet balance: '' @
                float_str E (fst (get_wallet_balance E self w)) @ '' SOL'') ?w1"
  have m: "fst (create_token_mint E dec self ?w2) =
             Inl (Exception ''Could not extract token mint address from output'')"
    by (rule create_token_mint_no_marker[OF assms(1) _ assms(4)]) (simp add: assms(3))
  show ?thesis
    using assms(2) m
    by (simp add: create_token_steps_def Let_def split_beta fst_get_wallet_balance)
qed

lemma create_token_no_mint_marker:
  assumes "token_mint self = None"
      and "\<not> float_lt (balance_of E (calls w) self) min_balance"
      and "tool E (calls w @ [[''solana'', ''balance'', ''--keypair'', wallet_path self]])
             [''spl-token'', ''create-token'', ''--keypair'', wallet_path self,
              ''--decimals'', str_int dec] = Exited 0 out err"
      and "\<forall>line \<in> set (split_on (CHR 0x0A) (strip out)). \<not> py_in ''Creating token'' line"
  shows "fst (create_token E self n s d amt dec i rm rf w) =
           error_result ''Could not extract token mint address from output'' (network self) \<and>
         calls (snd (snd (create_token E self n s d amt dec i rm rf w))) =
           calls w @ [[''solana'', ''balance'', ''--keypair'', wallet_path self],
                      [''spl-token'', ''create-token'', ''--keypair'', wallet_path self,
                       ''--decimals'', str_int dec]]"
  using create_token_steps_no_mint_marker[of self E
          "log E self (starting_message n s) w" dec out err n s d amt i] assms
  by (simp add: create_token_def Let_def split_beta create_token_failed_def)

lemma files_print_revocation_status [simp]:
  "files (snd (print_revocation_status rv k lbl w)) = files w"
  "calls (snd (print_revocation_status rv k lbl w)) = calls w"
  by (simp_all add: print_revocation_status_def Let_def split: sum.splits bool.splits)

lemma print_revocation_results_unchanged [simp]:
  "files (snd (print_revocation_results r w)) = files w"
  "calls (snd (print_revocation_results r w)) = calls w"
  by (simp_all add: print_revocation_results_def Let_def split_beta split: sum.splits option.splits)

lemma main_output_unchanged [simp]:
  "files (snd (main_output E args r w)) = files w"
  "calls (snd (main_output E args r w)) = calls w"
  by (simp_all add: main_output_def Let_def split_beta split: sum.splits option.splits)



lemma init_simps [simp]:
  "log_file (fst (init E wp net w)) = ''creation_log.txt''"
  "token_mint (fst (init E wp net w)) = None"
  "token_account (fst (init E wp net w)) = None"
  "network (fst (init E wp net w)) = net"
  "wallet_path (fst (init E wp net w)) = wp"
  "calls (snd (init E wp net w)) = calls w"
  "ticks (snd (init E wp net w)) = Suc (ticks w)"
  "console (snd (init E wp net w)) = console w"
  "files (snd (init E wp net w)) ''creation_log.txt'' =
     Some (''Token Creation Log - '' @ datetime_str E (clock E (ticks w)) @ NL @
           ''Network: '' @ net @ NL @ replicate 50 (CHR ''='') @ NL @ NL)"
  by (simp_all add: init_def Let_def split_beta)

lemma verify_false_logged:
  "fst (verify_token_creation E self w) = False \<Longrightarrow>
   \<exists>cause. last (console (snd (verify_token_creation E self w))) =
      ''Token verification failed: '' @ cause"
  by (auto simp: verify_token_creation_def Let_def split_beta split: sum.splits option.splits)

lemma create_token_verification_failed:
  assumes "create_token_steps E self n s d amt dec i
             (log E self (starting_message n s) w) = (Inr (m, a, md), self', w')"
      and "verify_token_creation E self' w' = (False, w'')"
  shows "create_token E self n s d amt dec i rm rf w =
           (error_result ''Token verification failed'' (network self), self',
            log E self' ''Token creation failed: Token verification failed'' w'') \<and>
         (\<exists>cause. last (console w'') = ''Token verification failed: '' @ cause)"
proof -
  have net: "network self' = network self"
    using creator_create_token_steps(1)[of E self n s d amt dec i
        "log E self (starting_message n s) w"]
    unfolding assms(1) by simp
  have "\<exists>cause. last (console w'') = ''Token verification failed: '' @ cause"
    using verify_false_logged[of E self' w'] assms(2) by simp
  moreover have "create_token E self n s d amt dec i rm rf w =
           (error_result ''Token verification failed'' (network self), self',
            log E self' ''Token creation failed: Token verification failed'' w'')"
    unfolding create_token_def Let_def assms(1)
    by (simp add: assms(2) create_token_failed_def net)
  ultimately show ?thesis by simp
qed

lemma success_create_token_failed [simp]:
  "map_of (fst (create_token_failed E e self w)) ''success'' = Some (PBool False)"
  "map_of (fst (create_token_failed E e self w)) ''authority_revocation'' = None"
  "map_of (fst (create_token_failed E e self w)) ''metadata'' = None"
  by (simp_all add: create_token_failed_def error_result_def)

lemma fst_create_token_finish:
  "fst (create_token_finish E self m a md rm rf w) =
     [(''success'', PBool True), (''mint_address'', PStr m), (''token_account'', PStr a),
      (''metadata'', PDict md), (''network'', PStr (network self))] @
     (if rm \<or> rf then
        [(''authority_revocation'',
          PDict ((if rm then [(''mint_authority_revoked'',
                               PBool (fst (revoke_mint_authority E self w)))] else []) @
                 (if rf then [(''freeze_authority_revoked'',
                               PBool (fst (revoke_freeze_authority E self
                                  (if rm then snd (revoke_mint_authority E self w) else w))))]
                  else [])))]
      else [])"
  by (simp add: create_token_finish_def Let_def split_beta)

lemma success_create_token_finish [simp]:
  "map_of (fst (create_token_finish E self m a md rm rf w)) ''success'' = Some (PBool True)"
  "map_of (fst (create_token_finish E self m a md rm rf w)) ''metadata'' = Some (PDict md)"
  by (simp_all add: fst_create_token_finish)

lemma success_independent_of_revocation:
  "map_of (fst (create_token E self n s d amt dec i rm rf w)) ''success'' =
   map_of (fst (create_token E self n s d amt dec i False False w)) ''success''"
  by (simp add: create_token_def Let_def split_beta split: sum.splits bool.splits)

lemma only_freeze_result:
  "(map_of (fst (create_token E self n s d amt dec i False True w)) ''success'' = Some (PBool True)
      \<longrightarrow> (\<exists>b. map_of (fst (create_token E self n s d amt dec i False True w))
                  ''authority_revocation'' = Some (PDict [(''freeze_authority_revoked'', PBool b)]))) \<and>
   (map_of (fst (create_token E self n s d amt dec i False True w)) ''success'' \<noteq> Some (PBool True)
      \<longrightarrow> map_of (fst (create_token E self n s d amt dec i False True w))
             ''authority_revocation'' = None)"
  by (simp add: create_token_def Let_def split_beta fst_create_token_finish
      split: sum.splits bool.splits)

lemma steps_metadata_decimals:
  "fst (create_token_steps E self n s d amt dec i w) = Inr (m, a, md) \<Longrightarrow>
   map_of md ''decimals'' = Some (PInt 9)"
  by (auto simp: create_token_steps_def Let_def split_beta decimals_create_metadata
      split: sum.splits option.splits if_splits)

lemma steps_metadata_file:
  "fst (create_token_steps E self n s d amt dec i w) = Inr (m, a, md) \<Longrightarrow>
   log_file self = ''creation_log.txt'' \<Longrightarrow>
   files (snd (snd (create_token_steps E self n s d amt dec i w))) ''token_metadata.json'' =
     Some (json_dumps E (PDict md))"
  by (auto simp: create_token_steps_def Let_def split_beta files_create_metadata
      split: sum.splits option.splits if_splits)

lemma create_token_success_metadata:
  assumes "map_of (fst (create_token E self n s d amt dec i rm rf w)) ''success'' = Some (PBool True)"
      and "log_file self = ''creation_log.txt''"
  shows "\<exists>md. map_of (fst (create_token E self n s d amt dec i rm rf w)) ''metadata'' = Some (PDict md) \<and>
           map_of md ''decimals'' = Some (PInt 9) \<and>
           files (snd (snd (create_token E self n s d amt dec i rm rf w))) ''token_metadata.json'' =
             Some (json_dumps E (PDict md))"
  using assms
  by (auto simp: create_token_def Let_def split_beta steps_metadata_decimals steps_metadata_file
      split: sum.splits bool.splits)

lemma create_token_mint_ok:
  assumes "tool E (calls w) [''spl-token'', ''create-token'', ''--keypair'', wallet_path self,
                 ''--decimals'', str_int d] = Exited 0 out err"
      and "extract_address ''Creating token'' out (token_mint self) = Inr (Some mint)"
      and "mint \<noteq> []"
  shows "fst (create_token_mint E d self w) = Inr mint \<and>
         token_mint (fst (snd (create_token_mint E d self w))) = Some mint"
  using assms
  by (simp add: create_token_mint_def Let_def split_beta fst_run_command run_result_def)

lemma create_token_account_ok:
  assumes "token_mint self = Some mint"
      and "tool E (calls w) [''spl-token'', ''create-account'', mint, ''--keypair'',
                 wallet_path self] = Exited 0 out err"
      and "extract_address ''Creating account'' out (token_account self) = Inr (Some account)"
      and "account \<noteq> []"
  shows "fst (create_token_account E self w) = Inr account \<and>
         token_account (fst (snd (create_token_account E self w))) = Some account \<and>
         calls (snd (snd (create_token_account E self w))) =
           calls w @ [[''spl-token'', ''create-account'', mint, ''--keypair'', wallet_path self]]"
  using assms
  by (simp add: create_token_account_def Let_def split_beta fst_run_command run_result_def)

lemma mint_tokens_ok:
  assumes "token_mint self = Some mint"
      and "tool E (calls w) [''spl-token'', ''mint'', mint, str_int amount, ''--keypair'',
                 wallet_path self] = Exited 0 out err"
  shows "fst (mint_tokens E amount self w) = None \<and>
         calls (snd (mint_tokens E amount self w)) =
           calls w @ [[''spl-token'', ''mint'', mint, str_int amount, ''--keypair'',
                       wallet_path self]]"
  using assms
  by (simp add: mint_tokens_def Let_def split_beta fst_run_command run_result_def)

lemma calls_create_metadata [simp]:
  "calls (snd (create_metadata E self n s d i w)) = calls w"
  by (simp add: create_metadata_def Let_def split_beta)

lemma fst_verify_token_creation:
  assumes "token_mint self = Some mint" and "token_account self = Some account"
  shows "fst (verify_token_creation E self w) =
           (case run_result E (calls w) [''spl-token'', ''supply'', mint] of
              Inl e \<Rightarrow> False
            | Inr r \<Rightarrow>
                (case run_result E (calls w @ [[''spl-token'', ''supply'', mint]])
                        [''spl-token'', ''balance'', ''--address'', account] of
                   Inl e \<Rightarrow> False
                 | Inr r' \<Rightarrow> True))"
  using assms
  by (simp add: verify_token_creation_def Let_def split_beta fst_run_command
      split: sum.splits)

lemma create_token_steps_ok:
  assumes "\<not> float_lt (balance_of E (calls w) self) min_balance"
      and "tool E (calls w @ [[''solana'', ''balance'', ''--keypair'', wallet_path self]])
             [''spl-token'', ''create-token'', ''--keypair'', wallet_path self,
              ''--decimals'', str_int dec] = Exited 0 out1 err1"
      and "extract_address ''Creating token'' out1 (token_mint self) = Inr (Some mint)"
      and "mint \<noteq> []"
      and "tool E (calls w @ [[''solana'', ''balance'', ''--keypair'', wallet_path self],
                [''spl-token'', ''create-token'', ''--keypair'', wallet_path self,
                 ''--decimals'', str_int dec]])
             [''spl-token'', ''create-account'', mint, ''--keypair'', wallet_path self] =
           Exited 0 out2 err2"
      and "extract_address ''Creating account'' out2 (token_account self) = Inr (Some account)"
      and "account \<noteq> []"
      and "tool E (calls w @ [[''solana'', ''balance'', ''--keypair'', wallet_path self],
                [''spl-token'', ''create-token'', ''--keypair'', wallet_path self,
                 ''--decimals'', str_int dec],
                [''spl-token'', ''create-account'', mint, ''--keypair'', wallet_path self]])
             [''spl-token'', ''mint'', mint, str_int amt, ''--keypair'', wallet_path self] =
           Exited 0 out3 err3"
  shows "(\<exists>md. fst (create_token_steps E self n s d amt dec i w) = Inr (mint, account, md)) \<and>
         token_mint (fst (snd (create_token_steps E self n s d amt dec i w))) = Some mint \<and>
         token_account (fst (snd (create_token_steps E self n s d amt dec i w))) = Some account \<and>
         calls (snd (snd (create_token_steps E self n s d amt dec i w))) =
           calls w @ [[''solana'', ''balance'', ''--keypair'', wallet_path self],
                [''spl-token'', ''create-token'', ''--keypair'', wallet_path self,
                 ''--decimals'', str_int dec],
                [''spl-token'', ''create-account'', mint, ''--keypair'', wallet_path self],
                [''spl-token'', ''mint'', mint, str_int amt, ''--keypair'', wallet_path self]]"
proof -
  let ?w1 = "snd (get_wallet_balance E self w)"
  let ?w2 = "log E self (''Wallet balance: '' @
                float_str E (fst (get_wallet_balance E self w)) @ '' SOL'') ?w1"
  let ?m = "create_token_mint E dec self ?w2"
  let ?a = "create_token_account E (fst (snd ?m)) (snd (snd ?m))"
  let ?t = "mint_tokens E amt (fst (snd ?a)) (snd (snd ?a))"
  have m: "fst ?m = Inr mint \<and> token_mint (fst (snd ?m)) = Some mint"
    by (rule create_token_mint_ok[OF _ assms(3,4)]) (simp add: assms(2))
  have a: "fst ?a = Inr account \<and> token_account (fst (snd ?a)) = Some account \<and>
           calls (snd (snd ?a)) = calls (snd (snd ?m)) @
             [[''spl-token'', ''create-account'', mint, ''--keypair'', wallet_path (fst (snd ?m))]]"
    by (rule create_token_account_ok[OF conjunct2[OF m] _ _ assms(7), where out = out2 and err = err2])
       (simp_all add: assms(5,6))
  have am: "token_mint (fst (snd ?a)) = Some mint"
    using conjunct2[OF m] by simp
  have t: "fst ?t = None \<and> calls (snd ?t) = calls (snd (snd ?a)) @
             [[''spl-token'', ''mint'', mint, str_int amt, ''--keypair'', wallet_path (fst (snd ?a))]]"
    by (rule mint_tokens_ok[OF am, where out = out3 and err = err3])
       (use a in \<open>simp add: assms(8)\<close>)
  show ?thesis
    using assms(1) m a t
    by (simp add: create_token_steps_def Let_def split_beta fst_get_wallet_balance)
qed

lemma report_run_command_simps [simp]:
  "files (snd (report_run_command E c w)) = files w"
  "ticks (snd (report_run_command E c w)) = ticks w"
  by (simp_all add: report_run_command_def split_beta split: sum.splits run_error.splits)

lemma get_token_info_simps [simp]:
  "files (snd (get_token_info E self w)) = files w"
  "ticks (snd (get_token_info E self w)) = ticks w"
  by (simp_all add: get_token_info_def Let_def split_beta split: sum.splits option.splits)





lemma console_print_revocation_status [simp]:
  "x \<in> set (console w) \<Longrightarrow> x \<in> set (console (snd (print_revocation_status rv k lbl w)))"
  by (simp add: print_revocation_status_def Let_def split: sum.splits bool.splits)

lemma console_print_revocation_results [simp]:
  "x \<in> set (console w) \<Longrightarrow> x \<in> set (console (snd (print_revocation_results r w)))"
  by (simp add: print_revocation_results_def Let_def split_beta split: sum.splits option.splits)


lemma create_token_ok:
  assumes "\<exists>md. fst (create_token_steps E self n s d amt dec i
             (log E self (starting_message n s) w)) = Inr (mint, account, md)"
      and "fst (verify_token_creation E
             (fst (snd (create_token_steps E self n s d amt dec i
               (log E self (starting_message n s) w))))
             (snd (snd (create_token_steps E self n s d amt dec i
               (log E self (starting_message n s) w))))) = True"
  shows "\<exists>md. fst (create_token E self n s d amt dec i rm rf w) =
           fst (create_token_finish E
             (fst (snd (create_token_steps E self n s d amt dec i
               (log E self (starting_message n s) w))))
             mint account md rm rf
             (snd (verify_token_creation E
               (fst (snd (create_token_steps E self n s d amt dec i
                 (log E self (starting_message n s) w))))
               (snd (snd (create_token_steps E self n s d amt dec i
                 (log E self (starting_message n s) w)))))))"
  using assms
  by (auto simp: create_token_def Let_def split_beta split: sum.splits bool.splits)

lemma create_token_ok_fields:
  assumes "\<exists>md. fst (create_token E self n s d amt dec i rm rf w) =
             fst (create_token_finish E self' mint account md rm rf w')"
      and "network self' = net"
  shows "map_of (fst (create_token E self n s d amt dec i rm rf w)) ''success'' = Some (PBool True) \<and>
         map_of (fst (create_token E self n s d amt dec i rm rf w)) ''mint_address'' = Some (PStr mint) \<and>
         map_of (fst (create_token E self n s d amt dec i rm rf w)) ''token_account'' = Some (PStr account) \<and>
         map_of (fst (create_token E self n s d amt dec i rm rf w)) ''network'' = Some (PStr net) \<and>
         (map_of (fst (create_token E self n s d amt dec i rm rf w)) ''authority_revocation'' = None) =
           (\<not> rm \<and> \<not> rf)"
  using assms by (auto simp: fst_create_token_finish)


lemma fst_revoke_freeze_authority_failed:
  assumes "token_mint self = Some m" and "m \<noteq> []"
      and "tool E (calls w) [''spl-token'', ''authorize'', m, ''freeze'', ''--disable''] =
             Exited rc out err"
      and "rc \<noteq> 0"
  shows "fst (revoke_freeze_authority E self w) = False"
  using assms
  by (simp add: revoke_freeze_authority_def Let_def split_beta fst_run_command run_result_def)

lemma demo_balance_rich:
  "[''solana'', ''balance''] \<notin> set F \<Longrightarrow>
   balance_of (demo_env F rich_balance_out mo) h (demo_self net) = Finite (3 / 2)"
  by (simp add: balance_of_def run_result_def demo_env_def demo_tool_def demo_self_def
      strip_def py_split_def py_isspace_def NL_def rich_balance_out_def)

lemma demo_balance_poor:
  "[''solana'', ''balance''] \<notin> set F \<Longrightarrow>
   balance_of (demo_env F poor_balance_out mo) h (demo_self net) = Finite (1 / 200)"
  by (simp add: balance_of_def run_result_def demo_env_def demo_tool_def demo_self_def
      strip_def py_split_def py_isspace_def NL_def poor_balance_out_def)

lemma rich_enough: "\<not> float_lt (Finite (3 / 2)) min_balance"
  by (simp add: min_balance_def)

lemma poor_below: "float_lt (Finite (1 / 200)) min_balance"
  by (simp add: min_balance_def)

lemma demo_extract_mint:
  "extract_address ''Creating token'' good_mint_out None = Inr (Some ''MintAddr1'')"
  by (simp add: extract_address_def good_mint_out_def split_on_def strip_def py_isspace_def
      py_split_def NL_def)

lemma demo_extract_account:
  "extract_address ''Creating account'' account_out None =
     Inr (Some ''AcctAddr1'')"
  by (simp add: extract_address_def split_on_def strip_def py_isspace_def py_split_def NL_def
      account_out_def)

lemma demo_no_marker:
  "\<forall>line \<in> set (split_on (CHR 0x0A) (strip bad_mint_out)). \<not> py_in ''Creating token'' line"
  by (simp add: split_on_def strip_def py_isspace_def NL_def bad_mint_out_def)

lemma demo_steps_ok:
  assumes "[''solana'', ''balance''] \<notin> set F" and "[''spl-token'', ''create-token''] \<notin> set F"
      and "[''spl-token'', ''create-account''] \<notin> set F" and "[''spl-token'', ''mint''] \<notin> set F"
  shows "(\<exists>md. fst (create_token_steps (demo_env F rich_balance_out good_mint_out) (demo_self net)
                   n s d amt dec i w) = Inr (''MintAddr1'', ''AcctAddr1'', md)) \<and>
         token_mint (fst (snd (create_token_steps (demo_env F rich_balance_out good_mint_out)
                   (demo_self net) n s d amt dec i w))) = Some ''MintAddr1'' \<and>
         token_account (fst (snd (create_token_steps (demo_env F rich_balance_out good_mint_out)
                   (demo_self net) n s d amt dec i w))) = Some ''AcctAddr1''"
proof -
  have "(\<exists>md. fst (create_token_steps (demo_env F rich_balance_out good_mint_out) (demo_self net)
                   n s d amt dec i w) = Inr (''MintAddr1'', ''AcctAddr1'', md)) \<and>
         token_mint (fst (snd (create_token_steps (demo_env F rich_balance_out good_mint_out)
                   (demo_self net) n s d amt dec i w))) = Some ''MintAddr1'' \<and>
         token_account (fst (snd (create_token_steps (demo_env F rich_balance_out good_mint_out)
                   (demo_self net) n s d amt dec i w))) = Some ''AcctAddr1'' \<and>
         calls (snd (snd (create_token_steps (demo_env F rich_balance_out good_mint_out)
                   (demo_self net) n s d amt dec i w))) =
           calls w @ [[''solana'', ''balance'', ''--keypair'', wallet_path (demo_self net)],
                [''spl-token'', ''create-token'', ''--keypair'', wallet_path (demo_self net),
                 ''--decimals'', str_int dec],
                [''spl-token'', ''create-account'', ''MintAddr1'', ''--keypair'', wallet_path (demo_self net)],
                [''spl-token'', ''mint'', ''MintAddr1'', str_int amt, ''--keypair'', wallet_path (demo_self net)]]"
  proof (rule create_token_steps_ok[where ?out1.0 = good_mint_out and ?err1.0 = "[]"
          and ?out2.0 = account_out and ?err2.0 = "[]"
          and ?out3.0 = "''500'' @ NL" and ?err3.0 = "[]"])
    show "\<not> float_lt (balance_of (demo_env F rich_balance_out good_mint_out) (calls w) (demo_self net))
            min_balance"
      by (simp add: demo_balance_rich[OF assms(1)] rich_enough)
  qed (simp_all add: demo_env_def demo_tool_def assms demo_self_def demo_extract_mint
         demo_extract_account)
  then show ?thesis by simp
qed

lemma demo_verify:
  assumes "token_mint self = Some ''MintAddr1''" and "token_account self = Some ''AcctAddr1''"
  shows "fst (verify_token_creation (demo_env F b mo) self w) =
           ([''spl-token'', ''supply''] \<notin> set F \<and> [''spl-token'', ''balance''] \<notin> set F)"
  by (simp add: fst_verify_token_creation[OF assms] run_result_def demo_env_def demo_tool_def)


lemma demo_create_token_ok:
  assumes "[''solana'', ''balance''] \<notin> set F" and "[''spl-token'', ''create-token''] \<notin> set F"
      and "[''spl-token'', ''create-account''] \<notin> set F" and "[''spl-token'', ''mint''] \<notin> set F"
      and "[''spl-token'', ''supply''] \<notin> set F" and "[''spl-token'', ''balance''] \<notin> set F"
  shows "\<exists>md. fst (create_token (demo_env F rich_balance_out good_mint_out) (demo_self net)
                  n s d amt dec i rm rf w) =
           fst (create_token_finish (demo_env F rich_balance_out good_mint_out)
             (fst (snd (create_token_steps (demo_env F rich_balance_out good_mint_out)
                (demo_self net) n s d amt dec i
                (log (demo_env F rich_balance_out good_mint_out) (demo_self net)
                   (starting_message n s) w))))
             ''MintAddr1'' ''AcctAddr1'' md rm rf
             (snd (verify_token_creation (demo_env F rich_balance_out good_mint_out)
               (fst (snd (create_token_steps (demo_env F rich_balance_out good_mint_out)
                  (demo_self net) n s d amt dec i
                  (log (demo_env F rich_balance_out good_mint_out) (demo_self net)
                     (starting_message n s) w))))
               (snd (snd (create_token_steps (demo_env F rich_balance_out good_mint_out)
                  (demo_self net) n s d amt dec i
                  (log (demo_env F rich_balance_out good_mint_out) (demo_self net)
                     (starting_message n s) w)))))))"
proof -
  note st = demo_steps_ok[OF assms(1-4), of net n s d amt dec i
      "log (demo_env F rich_balance_out good_mint_out) (demo_self net) (starting_message n s) w"]
  have v: "fst (verify_token_creation (demo_env F rich_balance_out good_mint_out)
             (fst (snd (create_token_steps (demo_env F rich_balance_out good_mint_out)
                (demo_self net) n s d amt dec i
                (log (demo_env F rich_balance_out good_mint_out) (demo_self net)
                   (starting_message n s) w))))
             (snd (snd (create_token_steps (demo_env F rich_balance_out good_mint_out)
                (demo_self net) n s d amt dec i
                (log (demo_env F rich_balance_out good_mint_out) (demo_self net)
                   (starting_message n s) w))))) = True"
    using st assms(5,6) by (simp add: demo_verify)
  show ?thesis
    by (rule create_token_ok[OF conjunct1[OF st] v])
qed

lemma demo_create_token_fields:
  assumes "[''solana'', ''balance''] \<notin> set F" and "[''spl-token'', ''create-token''] \<notin> set F"
      and "[''spl-token'', ''create-account''] \<notin> set F" and "[''spl-token'', ''mint''] \<notin> set F"
      and "[''spl-token'', ''supply''] \<notin> set F" and "[''spl-token'', ''balance''] \<notin> set F"
  shows "map_of (fst (create_token (demo_env F rich_balance_out good_mint_out) (demo_self net)
                  n s d amt dec i rm rf w)) ''success'' = Some (PBool True) \<and>
         map_of (fst (create_token (demo_env F rich_balance_out good_mint_out) (demo_self net)
                  n s d amt dec i rm rf w)) ''mint_address'' = Some (PStr ''MintAddr1'') \<and>
         map_of (fst (create_token (demo_env F rich_balance_out good_mint_out) (demo_self net)
                  n s d amt dec i rm rf w)) ''token_account'' = Some (PStr ''AcctAddr1'') \<and>
         map_of (fst (create_token (demo_env F rich_balance_out good_mint_out) (demo_self net)
                  n s d amt dec i rm rf w)) ''network'' = Some (PStr net) \<and>
         (map_of (fst (create_token (demo_env F rich_balance_out good_mint_out) (demo_self net)
                  n s d amt dec i rm rf w)) ''authority_revocation'' = None) = (\<not> rm \<and> \<not> rf)"
  by (rule create_token_ok_fields[OF demo_create_token_ok[OF assms]])
     (simp add: demo_self_def)


section \<open>The claims\<close>

subsection \<open>C1: the decimals recorded in the metadata\<close>

text \<open>
  Every successful run records \<open>decimals = 9\<close> in the metadata it returns and persists,
  whatever decimals the caller chose: \<open>create_metadata\<close> writes the literal 9.
\<close>

lemma create_token_metadata_decimals:
  assumes "map_of (fst (create_token E self n s d amt dec i rm rf w)) ''success'' = Some (PBool True)"
      and "log_file self = ''creation_log.txt''"
  shows "\<exists>md. map_of (fst (create_token E self n s d amt dec i rm rf w)) ''metadata'' =
                 Some (PDict md) \<and>
              map_of md ''decimals'' = Some (PInt 9) \<and>
              files (snd (snd (create_token E self n s d amt dec i rm rf w)))
                ''token_metadata.json'' = Some (json_dumps E (PDict md))"
  using assms by (rule create_token_success_metadata)

text \<open>
  C1. The claim: after a successful run with caller-supplied decimals \<open>d\<close>, the metadata
  record has its decimals field equal to \<open>d\<close>. The run below has a wallet with 1.5 SOL, an
  external tool that succeeds at every step, and \<open>decimals = 6\<close>: it succeeds, and the
  metadata record returned and written to \<open>token_metadata.json\<close> has decimals 9.
\<close>

theorem create_token_with_six_decimals_records_nine:
  "map_of (fst (create_token (demo_env [] rich_balance_out good_mint_out) (demo_self ''devnet'')
             ''Test'' ''TST'' [] 500 6 [] False False demo_world)) ''success'' =
     Some (PBool True) \<and>
   (\<exists>md. map_of (fst (create_token (demo_env [] rich_balance_out good_mint_out)
                    (demo_self ''devnet'') ''Test'' ''TST'' [] 500 6 [] False False demo_world))
             ''metadata'' = Some (PDict md) \<and>
         map_of md ''decimals'' = Some (PInt 9) \<and>
         files (snd (snd (create_token (demo_env [] rich_balance_out good_mint_out)
                    (demo_self ''devnet'') ''Test'' ''TST'' [] 500 6 [] False False demo_world)))
           ''token_metadata.json'' =
           Some (json_dumps (demo_env [] rich_balance_out good_mint_out) (PDict md)))"
proof -
  have ok: "map_of (fst (create_token (demo_env [] rich_balance_out good_mint_out)
             (demo_self ''devnet'') ''Test'' ''TST'' [] 500 6 [] False False demo_world))
             ''success'' = Some (PBool True)"
    using demo_create_token_fields[of "[]" "''devnet''" "''Test''" "''TST''" "[]" 500 6 "[]"
        False False demo_world]
    by simp
  have lf: "log_file (demo_self ''devnet'') = ''creation_log.txt''"
    by (simp add: demo_self_def)
  show ?thesis
    using ok create_token_metadata_decimals[OF ok lf] by simp
qed

subsection \<open>C2: a failed verification\<close>

text \<open>
  The claim says that a failed verification leaves the overall result a success. In the
  run below the supply query of the verification fails after mint, account, minting and
  metadata went through: \<open>verify_token_creation\<close> returns \<open>False\<close> and \<open>create_token\<close>
  returns the failure result.
\<close>

theorem failed_verification_counterexample:
  "isl (fst (create_token_steps (demo_env [[''spl-token'', ''supply'']] rich_balance_out good_mint_out)
         (demo_self ''devnet'') ''Test'' ''TST'' [] 500 6 []
         (log (demo_env [[''spl-token'', ''supply'']] rich_balance_out good_mint_out)
            (demo_self ''devnet'') (starting_message ''Test'' ''TST'') demo_world))) = False \<and>
   fst (verify_token_creation (demo_env [[''spl-token'', ''supply'']] rich_balance_out good_mint_out)
         (fst (snd (create_token_steps
            (demo_env [[''spl-token'', ''supply'']] rich_balance_out good_mint_out)
            (demo_self ''devnet'') ''Test'' ''TST'' [] 500 6 []
            (log (demo_env [[''spl-token'', ''supply'']] rich_balance_out good_mint_out)
               (demo_self ''devnet'') (starting_message ''Test'' ''TST'') demo_world))))
         (snd (snd (create_token_steps
            (demo_env [[''spl-token'', ''supply'']] rich_balance_out good_mint_out)
            (demo_self ''devnet'') ''Test'' ''TST'' [] 500 6 []
            (log (demo_env [[''spl-token'', ''supply'']] rich_balance_out good_mint_out)
               (demo_self ''devnet'') (starting_message ''Test'' ''TST'') demo_world))))) = False \<and>
   fst (create_token (demo_env [[''spl-token'', ''supply'']] rich_balance_out good_mint_out)
         (demo_self ''devnet'') ''Test'' ''TST'' [] 500 6 [] False False demo_world) =
     error_result ''Token verification failed'' ''devnet'' \<and>
   map_of (fst (create_token (demo_env [[''spl-token'', ''supply'']] rich_balance_out good_mint_out)
         (demo_self ''devnet'') ''Test'' ''TST'' [] 500 6 [] False False demo_world)) ''success'' =
     Some (PBool False)"
proof -
  let ?E = "demo_env [[''spl-token'', ''supply'']] rich_balance_out good_mint_out"
  let ?st = "create_token_steps ?E (demo_self ''devnet'') ''Test'' ''TST'' [] 500 6 []
               (log ?E (demo_self ''devnet'') (starting_message ''Test'' ''TST'') demo_world)"
  note st = demo_steps_ok[of "[[''spl-token'', ''supply'']]" "''devnet''" "''Test''" "''TST''" "[]"
      500 6 "[]" "log ?E (demo_self ''devnet'') (starting_message ''Test'' ''TST'') demo_world"]
  have s: "(\<exists>md. fst ?st = Inr (''MintAddr1'', ''AcctAddr1'', md)) \<and>
           token_mint (fst (snd ?st)) = Some ''MintAddr1'' \<and>
           token_account (fst (snd ?st)) = Some ''AcctAddr1''"
    by (rule st) simp_all
  then obtain md where md: "fst ?st = Inr (''MintAddr1'', ''AcctAddr1'', md)"
    by blast
  have v: "fst (verify_token_creation ?E (fst (snd ?st)) (snd (snd ?st))) = False"
    using s by (simp add: demo_verify)
  have eq1: "?st = (Inr (''MintAddr1'', ''AcctAddr1'', md), fst (snd ?st), snd (snd ?st))"
    using md by (simp add: prod_eq_iff)
  have eq2: "verify_token_creation ?E (fst (snd ?st)) (snd (snd ?st)) =
               (False, snd (verify_token_creation ?E (fst (snd ?st)) (snd (snd ?st))))"
    using v by (simp add: prod_eq_iff)
  have r: "fst (create_token ?E (demo_self ''devnet'') ''Test'' ''TST'' [] 500 6 [] False False
                  demo_world) =
             error_result ''Token verification failed'' (network (demo_self ''devnet''))"
    using create_token_verification_failed[OF eq1 eq2, of False False] by simp
  show ?thesis
    using md v r by (simp add: demo_self_def error_result_def)
qed

text \<open>
  C2, as amended. Whenever the steps up to the metadata went through and the verification
  fails, \<open>verify_token_creation\<close> has logged the warning \<open>Token verification failed: ...\<close>
  and returns \<open>False\<close>, and \<open>create_token\<close> ends with the failure result whose error is
  \<open>Token verification failed\<close>; after the verification it only logs that failure: no
  revocation is attempted and nothing is rolled back.
\<close>

theorem failed_verification_fails_the_workflow:
  assumes "create_token_steps E self name symbol description supply decimals image_url
             (log E self (starting_message name symbol) w) =
           (Inr (mint, account, metadata), self', w')"
      and "verify_token_creation E self' w' = (False, w'')"
  shows "create_token E self name symbol description supply decimals image_url
           revoke_mint revoke_freeze w =
           (error_result ''Token verification failed'' (network self), self',
            log E self' ''Token creation failed: Token verification failed'' w'') \<and>
         (\<exists>cause. last (console w'') = ''Token verification failed: '' @ cause)"
  using assms by (rule create_token_verification_failed)

theorem failed_verification_fails_the_workflow_witness:
  "isl (fst (create_token_steps (demo_env [[''spl-token'', ''balance'']] rich_balance_out good_mint_out)
         (demo_self ''devnet'') ''Test'' ''TST'' [] 500 6 []
         (log (demo_env [[''spl-token'', ''balance'']] rich_balance_out good_mint_out)
            (demo_self ''devnet'') (starting_message ''Test'' ''TST'') demo_world))) = False \<and>
   fst (verify_token_creation (demo_env [[''spl-token'', ''balance'']] rich_balance_out good_mint_out)
         (fst (snd (create_token_steps
            (demo_env [[''spl-token'', ''balance'']] rich_balance_out good_mint_out)
            (demo_self ''devnet'') ''Test'' ''TST'' [] 500 6 []
            (log (demo_env [[''spl-token'', ''balance'']] rich_balance_out good_mint_out)
               (demo_self ''devnet'') (starting_message ''Test'' ''TST'') demo_world))))
         (snd (snd (create_token_steps
            (demo_env [[''spl-token'', ''balance'']] rich_balance_out good_mint_out)
            (demo_self ''devnet'') ''Test'' ''TST'' [] 500 6 []
            (log (demo_env [[''spl-token'', ''balance'']] rich_balance_out good_mint_out)
               (demo_self ''devnet'') (starting_message ''Test'' ''TST'') demo_world))))) = False \<and>
   fst (create_token (demo_env [[''spl-token'', ''balance'']] rich_balance_out good_mint_out)
         (demo_self ''devnet'') ''Test'' ''TST'' [] 500 6 [] True True demo_world) =
     error_result ''Token verification failed'' ''devnet''"
proof -
  let ?E = "demo_env [[''spl-token'', ''balance'']] rich_balance_out good_mint_out"
  let ?st = "create_token_steps ?E (demo_self ''devnet'') ''Test'' ''TST'' [] 500 6 []
               (log ?E (demo_self ''devnet'') (starting_message ''Test'' ''TST'') demo_world)"
  note st = demo_steps_ok[of "[[''spl-token'', ''balance'']]" "''devnet''" "''Test''" "''TST''" "[]"
      500 6 "[]" "log ?E (demo_self ''devnet'') (starting_message ''Test'' ''TST'') demo_world"]
  have s: "(\<exists>md. fst ?st = Inr (''MintAddr1'', ''AcctAddr1'', md)) \<and>
           token_mint (fst (snd ?st)) = Some ''MintAddr1'' \<and>
           token_account (fst (snd ?st)) = Some ''AcctAddr1''"
    by (rule st) simp_all
  then obtain md where md: "fst ?st = Inr (''MintAddr1'', ''AcctAddr1'', md)"
    by blast
  have v: "fst (verify_token_creation ?E (fst (snd ?st)) (snd (snd ?st))) = False"
    using s by (simp add: demo_verify)
  have eq1: "?st = (Inr (''MintAddr1'', ''AcctAddr1'', md), fst (snd ?st), snd (snd ?st))"
    using md by (simp add: prod_eq_iff)
  have eq2: "verify_token_creation ?E (fst (snd ?st)) (snd (snd ?st)) =
               (False, snd (verify_token_creation ?E (fst (snd ?st)) (snd (snd ?st))))"
    using v by (simp add: prod_eq_iff)
  have r: "fst (create_token ?E (demo_self ''devnet'') ''Test'' ''TST'' [] 500 6 [] True True
                  demo_world) =
             error_result ''Token verification failed'' (network (demo_self ''devnet''))"
    using failed_verification_fails_the_workflow[OF eq1 eq2, of True True] by simp
  show ?thesis
    using md v r by (simp add: demo_self_def)
qed

subsection \<open>C3: the execution log\<close>




subsection \<open>C4: mint creation without the marker line\<close>

text \<open>
  C4. A fresh Provisioner (no mint address yet) with enough balance runs the mint-creation
  command; the command succeeds, but no line of its output contains \<open>Creating token\<close>.
  Then \<open>create_token\<close> returns the failure result with the extraction error, and the
  commands run during the invocation are the balance query and the mint creation only:
  the account-creation command is not run.
\<close>

theorem missing_mint_marker_fails:
  assumes "token_mint self = None"
      and "\<not> float_lt (fst (get_wallet_balance E self w)) min_balance"
      and "tool E (calls w @ [[''solana'', ''balance'', ''--keypair'', wallet_path self]])
             [''spl-token'', ''create-token'', ''--keypair'', wallet_path self,
              ''--decimals'', str_int decimals] = Exited 0 out err"
      and "\<forall>line \<in> set (split_on (CHR 0x0A) (strip out)). \<not> py_in ''Creating token'' line"
  shows "fst (create_token E self name symbol description supply decimals image_url
                revoke_mint revoke_freeze w) =
           error_result ''Could not extract token mint address from output'' (network self) \<and>
         calls (snd (snd (create_token E self name symbol description supply decimals image_url
                revoke_mint revoke_freeze w))) =
           calls w @ [[''solana'', ''balance'', ''--keypair'', wallet_path self],
                      [''spl-token'', ''create-token'', ''--keypair'', wallet_path self,
                       ''--decimals'', str_int decimals]]"
  using create_token_no_mint_marker[OF assms(1) _ assms(3,4)] assms(2)
  by (simp add: fst_get_wallet_balance)

theorem missing_mint_marker_fails_witness:
  "token_mint (demo_self ''devnet'') = None \<and>
   float_lt (fst (get_wallet_balance (demo_env [] rich_balance_out bad_mint_out)
                    (demo_self ''devnet'') demo_world)) min_balance = False \<and>
   tool (demo_env [] rich_balance_out bad_mint_out)
     [[''solana'', ''balance'', ''--keypair'', ''wallet.json'']]
     [''spl-token'', ''create-token'', ''--keypair'', ''wallet.json'', ''--decimals'', str_int 6] =
     Exited 0 bad_mint_out [] \<and>
   find (py_in ''Creating token'') (split_on (CHR 0x0A) (strip bad_mint_out)) = None \<and>
   fst (create_token (demo_env [] rich_balance_out bad_mint_out) (demo_self ''devnet'')
          ''Test'' ''TST'' [] 500 6 [] False False demo_world) =
     error_result ''Could not extract token mint address from output'' ''devnet'' \<and>
   calls (snd (snd (create_token (demo_env [] rich_balance_out bad_mint_out) (demo_self ''devnet'')
          ''Test'' ''TST'' [] 500 6 [] False False demo_world))) =
     [[''solana'', ''balance'', ''--keypair'', ''wallet.json''],
      [''spl-token'', ''create-token'', ''--keypair'', ''wallet.json'', ''--decimals'', str_int 6]]"
proof -
  let ?E = "demo_env [] rich_balance_out bad_mint_out"
  have a1: "token_mint (demo_self ''devnet'') = None"
    by (simp add: demo_self_def)
  have a2: "\<not> float_lt (fst (get_wallet_balance ?E (demo_self ''devnet'') demo_world)) min_balance"
    by (simp add: fst_get_wallet_balance demo_balance_rich rich_enough)
  have a3: "tool ?E (calls demo_world @
               [[''solana'', ''balance'', ''--keypair'', wallet_path (demo_self ''devnet'')]])
             [''spl-token'', ''create-token'', ''--keypair'', wallet_path (demo_self ''devnet''),
              ''--decimals'', str_int 6] = Exited 0 bad_mint_out []"
    by (simp add: demo_env_def demo_tool_def)
  note a4 = demo_no_marker
  have a5: "find (py_in ''Creating token'') (split_on (CHR 0x0A) (strip bad_mint_out)) = None"
    using a4 by (simp add: find_None_iff)
  show ?thesis
    using missing_mint_marker_fails[OF a1 a2 a3 a4, of "''Test''" "''TST''" "[]" 500 "[]"
        False False] a1 a2 a3 a5
    by (simp add: demo_self_def demo_world_def)
qed

subsection \<open>C5: a balance below the minimum\<close>

text \<open>
  C5. Whenever the balance that \<open>get_wallet_balance\<close> reads is below the minimum of 0.01,
  \<open>create_token\<close> returns the failure result with the insufficient-funds error, and the
  only command run during the invocation is the balance query: the mint-creation command
  is never run.
\<close>

theorem insufficient_balance_aborts:
  assumes "float_lt (fst (get_wallet_balance E self w)) min_balance"
  shows "fst (create_token E self name symbol description supply decimals image_url
                revoke_mint revoke_freeze w) =
           error_result ''Insufficient SOL balance for token creation'' (network self) \<and>
         calls (snd (snd (create_token E self name symbol description supply decimals image_url
                revoke_mint revoke_freeze w))) =
           calls w @ [[''solana'', ''balance'', ''--keypair'', wallet_path self]]"
  using assms create_token_poor by (simp add: fst_get_wallet_balance)

theorem insufficient_balance_aborts_witness:
  "float_lt (fst (get_wallet_balance (demo_env [] poor_balance_out good_mint_out)
                    (demo_self ''devnet'') demo_world)) min_balance \<and>
   fst (create_token (demo_env [] poor_balance_out good_mint_out) (demo_self ''devnet'')
          ''Test'' ''TST'' [] 500 6 [] False False demo_world) =
     error_result ''Insufficient SOL balance for token creation'' ''devnet'' \<and>
   calls (snd (snd (create_token (demo_env [] poor_balance_out good_mint_out)
          (demo_self ''devnet'') ''Test'' ''TST'' [] 500 6 [] False False demo_world))) =
     [[''solana'', ''balance'', ''--keypair'', ''wallet.json'']]"
proof -
  have h: "float_lt (fst (get_wallet_balance (demo_env [] poor_balance_out good_mint_out)
                    (demo_self ''devnet'') demo_world)) min_balance"
    by (simp add: fst_get_wallet_balance demo_balance_poor poor_below)
  show ?thesis
    using insufficient_balance_aborts[OF h, of "''Test''" "''TST''" "[]" 500 6 "[]" False False] h
    by (simp add: demo_self_def demo_world_def)
qed

subsection \<open>C6: decimals out of range\<close>

text \<open>
  C6. For every decimals argument below 0 or above 9, \<open>main\<close> exits with status 1 after
  printing one validation error (the decimals error, or the wallet error when the wallet
  file is missing as well), and no command has been handed to \<open>subprocess.run\<close>: the
  list of commands run and the files are as before.
\<close>

theorem decimals_out_of_range_rejected:
  assumes "arg_decimals args < 0 \<or> arg_decimals args > 9"
  shows "fst (main E args w) = Inr 1 \<and>
         calls (snd (main E args w)) = calls w \<and>
         files (snd (main E args w)) = files w \<and>
         console (snd (main E args w)) =
           console w @
           [if path_exists w (arg_wallet_path args) then ''Error: Decimals must be between 0 and 9''
            else ''Error: Wallet file not found: '' @ arg_wallet_path args]"
  using assms by (auto simp: main_def)

theorem decimals_out_of_range_rejected_witness:
  "arg_decimals (demo_args 10 False False ''devnet'') > 9 \<and>
   fst (main (demo_env [] rich_balance_out good_mint_out) (demo_args 10 False False ''devnet'')
          demo_world) = Inr 1 \<and>
   calls (snd (main (demo_env [] rich_balance_out good_mint_out)
          (demo_args 10 False False ''devnet'') demo_world)) = [] \<and>
   console (snd (main (demo_env [] rich_balance_out good_mint_out)
          (demo_args 10 False False ''devnet'') demo_world)) =
     [''Error: Decimals must be between 0 and 9'']"
proof -
  have h: "arg_decimals (demo_args 10 False False ''devnet'') < 0 \<or>
           arg_decimals (demo_args 10 False False ''devnet'') > 9"
    by (simp add: demo_args_def)
  show ?thesis
    using decimals_out_of_range_rejected[OF h, of "demo_env [] rich_balance_out good_mint_out"
        demo_world]
    by (simp add: demo_args_def demo_world_def path_exists_def)
qed

subsection \<open>C7: the outcomes of the revocations\<close>

text \<open>
  The claim says that every invocation that requests only the freeze revocation returns a
  result with a freeze-authority outcome. In the run below only the freeze revocation is
  requested, but the wallet holds 0.005 SOL: the workflow stops at the balance check, and
  the failure result has no revocation outcome at all.
\<close>

theorem only_freeze_requested_counterexample:
  "fst (create_token (demo_env [] poor_balance_out good_mint_out) (demo_self ''devnet'')
          ''Test'' ''TST'' [] 500 6 [] False True demo_world) =
     error_result ''Insufficient SOL balance for token creation'' ''devnet'' \<and>
   map_of (fst (create_token (demo_env [] poor_balance_out good_mint_out) (demo_self ''devnet'')
          ''Test'' ''TST'' [] 500 6 [] False True demo_world)) ''authority_revocation'' = None"
proof -
  have h: "float_lt (balance_of (demo_env [] poor_balance_out good_mint_out) (calls demo_world)
             (demo_self ''devnet'')) min_balance"
    by (simp add: demo_balance_poor poor_below)
  show ?thesis
    using create_token_poor[OF h, of "''Test''" "''TST''" "[]" 500 6 "[]" False True]
    by (simp add: demo_self_def error_result_def)
qed

text \<open>
  C7, as amended. For every invocation of \<open>create_token\<close> that requests only the freeze
  revocation: when the result is a success, its revocation outcomes are exactly one entry,
  the freeze-authority outcome, and no mint-authority outcome; when the result is a
  failure, it carries no revocation outcome. And for every invocation, whether the result
  is a success is the same as for the same invocation with no revocation requested: a
  failed revocation never turns a success into a failure.
\<close>

theorem revocation_outcomes:
  "(map_of (fst (create_token E self name symbol description supply decimals image_url
                   False True w)) ''success'' = Some (PBool True) \<longrightarrow>
      (\<exists>b. map_of (fst (create_token E self name symbol description supply decimals image_url
                          False True w)) ''authority_revocation'' =
              Some (PDict [(''freeze_authority_revoked'', PBool b)]))) \<and>
   (map_of (fst (create_token E self name symbol description supply decimals image_url
                   False True w)) ''success'' \<noteq> Some (PBool True) \<longrightarrow>
      map_of (fst (create_token E self name symbol description supply decimals image_url
                     False True w)) ''authority_revocation'' = None) \<and>
   map_of (fst (create_token E self name symbol description supply decimals image_url
                  revoke_mint revoke_freeze w)) ''success'' =
     map_of (fst (create_token E self name symbol description supply decimals image_url
                    False False w)) ''success''"
  using only_freeze_result success_independent_of_revocation
  by blast

theorem revocation_outcomes_witness:
  "map_of (fst (create_token (demo_env [[''spl-token'', ''authorize'']] rich_balance_out good_mint_out)
             (demo_self ''devnet'') ''Test'' ''TST'' [] 500 6 [] False True demo_world))
     ''success'' = Some (PBool True) \<and>
   map_of (fst (create_token (demo_env [[''spl-token'', ''authorize'']] rich_balance_out good_mint_out)
             (demo_self ''devnet'') ''Test'' ''TST'' [] 500 6 [] False True demo_world))
     ''authority_revocation'' = Some (PDict [(''freeze_authority_revoked'', PBool False)]) \<and>
   map_of (fst (create_token (demo_env [] poor_balance_out good_mint_out)
             (demo_self ''devnet'') ''Test'' ''TST'' [] 500 6 [] False True demo_world))
     ''success'' = Some (PBool False) \<and>
   map_of (fst (create_token (demo_env [] poor_balance_out good_mint_out)
             (demo_self ''devnet'') ''Test'' ''TST'' [] 500 6 [] False True demo_world))
     ''authority_revocation'' = None"
proof -
  let ?E = "demo_env [[''spl-token'', ''authorize'']] rich_balance_out good_mint_out"
  let ?st = "create_token_steps ?E (demo_self ''devnet'') ''Test'' ''TST'' [] 500 6 []
               (log ?E (demo_self ''devnet'') (starting_message ''Test'' ''TST'') demo_world)"
  let ?W = "snd (verify_token_creation ?E (fst (snd ?st)) (snd (snd ?st)))"
  let ?r = "fst (create_token ?E (demo_self ''devnet'') ''Test'' ''TST'' [] 500 6 [] False True
                   demo_world)"
  have st: "token_mint (fst (snd ?st)) = Some ''MintAddr1''"
    using demo_steps_ok[of "[[''spl-token'', ''authorize'']]" "''devnet''" "''Test''" "''TST''" "[]"
        500 6 "[]" "log ?E (demo_self ''devnet'') (starting_message ''Test'' ''TST'') demo_world"]
    by simp
  have rv: "fst (revoke_freeze_authority ?E (fst (snd ?st)) ?W) = False"
    by (rule fst_revoke_freeze_authority_failed[OF st, where rc = 1 and out = "[]"
          and err = "''boom''"])
       (simp_all add: demo_env_def demo_tool_def)
  obtain md where md: "?r = fst (create_token_finish ?E (fst (snd ?st)) ''MintAddr1''
                                   ''AcctAddr1'' md False True ?W)"
    using demo_create_token_ok[of "[[''spl-token'', ''authorize'']]" "''devnet''" "''Test''"
        "''TST''" "[]" 500 6 "[]" False True demo_world]
    by auto
  have ok: "map_of ?r ''success'' = Some (PBool True)"
    unfolding md by simp
  have b: "map_of ?r ''authority_revocation'' =
             Some (PDict [(''freeze_authority_revoked'', PBool False)])"
    unfolding md by (simp add: fst_create_token_finish rv)
  have h: "float_lt (balance_of (demo_env [] poor_balance_out good_mint_out) (calls demo_world)
             (demo_self ''devnet'')) min_balance"
    by (simp add: demo_balance_poor poor_below)
  have p: "map_of (fst (create_token (demo_env [] poor_balance_out good_mint_out)
             (demo_self ''devnet'') ''Test'' ''TST'' [] 500 6 [] False True demo_world))
             ''success'' = Some (PBool False)"
    using create_token_poor[OF h, of "''Test''" "''TST''" "[]" 500 6 "[]" False True]
    by (simp add: error_result_def)
  show ?thesis
    using ok b p
      revocation_outcomes[of ?E "demo_self ''devnet''" "''Test''" "''TST''" "[]" 500 6 "[]"
        demo_world False True]
      revocation_outcomes[of "demo_env [] poor_balance_out good_mint_out" "demo_self ''devnet''"
        "''Test''" "''TST''" "[]" 500 6 "[]" demo_world False True]
    by simp
qed

subsection \<open>C8: the report without a metadata file\<close>



subsection \<open>C9: the explorer link\<close>




subsection \<open>C10: a failing balance query\<close>

text \<open>
  C10. Whenever the balance query cannot be started, exits with a nonzero status, prints
  nothing but whitespace, or prints a first word that \<open>float\<close> rejects,
  \<open>get_wallet_balance\<close> returns 0.0, and \<open>create_token\<close> returns the failure result with
  the insufficient-funds error.
\<close>

theorem balance_query_failure_reported_as_insufficient_funds:
  assumes "(\<exists>msg. tool E (calls w) [''solana'', ''balance'', ''--keypair'', wallet_path self] =
              SpawnError msg) \<or>
           (\<exists>rc out err. tool E (calls w) [''solana'', ''balance'', ''--keypair'', wallet_path self] =
              Exited rc out err \<and>
              (rc \<noteq> 0 \<or> py_split (strip out) = [] \<or>
               (\<exists>balance_str rest msg. py_split (strip out) = balance_str # rest \<and>
                   py_float E balance_str = Inl msg)))"
  shows "fst (get_wallet_balance E self w) = Finite 0 \<and>
         fst (create_token E self name symbol description supply decimals image_url
                revoke_mint revoke_freeze w) =
           error_result ''Insufficient SOL balance for token creation'' (network self)"
proof -
  have zero: "balance_of E (calls w) self = Finite 0"
    using assms by (auto simp: balance_of_def run_result_def)
  then have "float_lt (balance_of E (calls w) self) min_balance"
    by simp
  then show ?thesis
    using zero create_token_poor by (simp add: fst_get_wallet_balance)
qed

theorem balance_query_failure_reported_as_insufficient_funds_witness:
  "tool (demo_env [[''solana'', ''balance'']] rich_balance_out good_mint_out) []
     [''solana'', ''balance'', ''--keypair'', ''wallet.json''] = Exited 1 [] ''boom'' \<and>
   fst (get_wallet_balance (demo_env [[''solana'', ''balance'']] rich_balance_out good_mint_out)
          (demo_self ''devnet'') demo_world) = Finite 0 \<and>
   fst (create_token (demo_env [[''solana'', ''balance'']] rich_balance_out good_mint_out)
          (demo_self ''devnet'') ''Test'' ''TST'' [] 500 6 [] False False demo_world) =
     error_result ''Insufficient SOL balance for token creation'' ''devnet''"
proof -
  let ?E = "demo_env [[''solana'', ''balance'']] rich_balance_out good_mint_out"
  have t: "tool ?E (calls demo_world)
             [''solana'', ''balance'', ''--keypair'', wallet_path (demo_self ''devnet'')] =
           Exited 1 [] ''boom''"
    by (simp add: demo_env_def demo_tool_def demo_self_def)
  have h: "(\<exists>msg. tool ?E (calls demo_world)
              [''solana'', ''balance'', ''--keypair'', wallet_path (demo_self ''devnet'')] =
              SpawnError msg) \<or>
           (\<exists>rc out err. tool ?E (calls demo_world)
              [''solana'', ''balance'', ''--keypair'', wallet_path (demo_self ''devnet'')] =
              Exited rc out err \<and>
              (rc \<noteq> 0 \<or> py_split (strip out) = [] \<or>
               (\<exists>balance_str rest msg. py_split (strip out) = balance_str # rest \<and>
                   py_float ?E balance_str = Inl msg)))"
    using t by simp
  show ?thesis
    using balance_query_failure_reported_as_insufficient_funds[OF h, of "''Test''" "''TST''" "[]"
        500 6 "[]" False False] t
    by (simp add: demo_self_def demo_world_def)
qed

end
